theory Spec2Isabelle
  imports Complex_Main "HOL-Library.Char_ord" "HOL-Library.List_Lexorder"
    "HOL-Library.Product_Lexorder" "HOL-Library.Multiset"
begin

section \<open>Cells\<close>

text \<open>
  The numeric columns of the tables hold IEEE doubles. The program only compares them
  (\<open><\<close>, \<open>>\<close>, \<open>==\<close>), takes absolute values and sorts them; all of these are exact on
  doubles, so a finite double is modelled by the real number it denotes, next to the two
  infinities and NaN (what \<open>read_csv\<close> gives for a missing cell). Every comparison with
  NaN is false.
\<close>

datatype flt = NInf | Fin real | PInf | NaN

fun flt_lt :: "flt \<Rightarrow> flt \<Rightarrow> bool" where
  "flt_lt (Fin a) (Fin b) = (a < b)"
| "flt_lt NInf (Fin b) = True"
| "flt_lt NInf PInf = True"
| "flt_lt (Fin a) PInf = True"
| "flt_lt _ _ = False"

definition flt_gt :: "flt \<Rightarrow> flt \<Rightarrow> bool" where
  "flt_gt a b = flt_lt b a"

fun flt_le :: "flt \<Rightarrow> flt \<Rightarrow> bool" where
  "flt_le NaN _ = False"
| "flt_le _ NaN = False"
| "flt_le a b = (\<not> flt_lt b a)"

fun flt_eq :: "flt \<Rightarrow> flt \<Rightarrow> bool" where
  "flt_eq NaN _ = False"
| "flt_eq _ NaN = False"
| "flt_eq a b = (a = b)"

fun flt_abs :: "flt \<Rightarrow> flt" where
  "flt_abs (Fin a) = Fin \<bar>a\<bar>"
| "flt_abs NInf = PInf"
| "flt_abs PInf = PInf"
| "flt_abs NaN = NaN"

fun isna :: "flt \<Rightarrow> bool" where
  "isna NaN = True"
| "isna _ = False"

text \<open>
  The label columns (\<open>cell_type\<close>, \<open>comp1\<close>, \<open>comp2\<close>) are read without a declared type, so
  a cell is what \<open>read_csv\<close> inferred for it: text, or a number. A number stands for an
  integer, floating-point or boolean cell by its value (Python compares, hashes and orders
  \<open>2\<close>, \<open>2.0\<close> and \<open>True == 1\<close> by value), and \<open>Num NaN\<close> is a missing cell.
\<close>

datatype label = Str string | Num flt

text \<open>\<open>==\<close> on two cells: by value, never true between text and a number or with NaN.\<close>

fun label_eq :: "label \<Rightarrow> label \<Rightarrow> bool" where
  "label_eq (Str a) (Str b) = (a = b)"
| "label_eq (Num a) (Num b) = flt_eq a b"
| "label_eq _ _ = False"

fun is_str :: "label \<Rightarrow> bool" where
  "is_str (Str s) = True"
| "is_str (Num v) = False"

fun the_str :: "label \<Rightarrow> string" where
  "the_str (Str s) = s"
| "the_str (Num v) = []"

fun the_num :: "label \<Rightarrow> flt" where
  "the_num (Num v) = v"
| "the_num (Str s) = NaN"

section \<open>Rows of the two tables\<close>

text \<open>
  The four columns the selection filters on are common to both tables; \<open>dataset\<close> is the
  text the loader writes. A frame is the list of its rows in index order. The column
  \<open>significant\<close> does not exist until the script assigns it (\<open>None\<close>).
\<close>

record sel_row =
  dataset :: string
  cell_type :: label
  comp1 :: label
  comp2 :: label

record dge_row = sel_row +
  gene :: string
  avg_log2FC :: flt
  p_val_adj :: flt
  significant :: "string option"

record gsea_row = sel_row +
  pathway :: string
  path_name :: string
  reference :: string
  NES :: flt
  padj :: flt
  Lead_genes :: string
  Tag_pct :: string
  Gene_pct :: string

section \<open>Boolean masks\<close>

text \<open>
  \<open>df[col] == v\<close>, \<open>df[col] < c\<close> and \<open>df[col] > c\<close> give a boolean column, \<open>&\<close> combines
  two of them position by position, and \<open>df[mask]\<close> keeps the rows whose position holds
  \<open>True\<close>, in order. A label column compared with the value of a select box is false
  everywhere when the box returned \<open>None\<close>.
\<close>

definition col_eq :: "string list \<Rightarrow> string \<Rightarrow> bool list" where
  "col_eq xs v = map (\<lambda>x. x = v) xs"

definition col_eq_sel :: "label list \<Rightarrow> label option \<Rightarrow> bool list" where
  "col_eq_sel xs v = map (\<lambda>x. case v of None \<Rightarrow> False | Some y \<Rightarrow> label_eq x y) xs"

definition col_lt :: "flt list \<Rightarrow> flt \<Rightarrow> bool list" where
  "col_lt xs c = map (\<lambda>x. flt_lt x c) xs"

definition col_gt :: "flt list \<Rightarrow> flt \<Rightarrow> bool list" where
  "col_gt xs c = map (\<lambda>x. flt_gt x c) xs"

definition col_abs :: "flt list \<Rightarrow> flt list" where
  "col_abs xs = map flt_abs xs"

definition mask_and :: "bool list \<Rightarrow> bool list \<Rightarrow> bool list" where
  "mask_and a b = map2 (\<and>) a b"

definition getitem_mask :: "'a list \<Rightarrow> bool list \<Rightarrow> 'a list" where
  "getitem_mask df msk = map fst (filter snd (zip df msk))"

section \<open>Significance classifier\<close>

text \<open>
  Lines 136 to 139:
  \<^verbatim>\<open>
  filtered_dge['significant'] = (
      (filtered_dge['p_val_adj'] < pval_cutoff) &
      (abs(filtered_dge['avg_log2FC']) > logfc_cutoff)
  ).map({True: 'Significant', False: 'Not Significant'})
  \<close>
\<close>

definition map_label :: "bool list \<Rightarrow> string list" where
  "map_label bs = map (\<lambda>b. if b then ''Significant'' else ''Not Significant'') bs"

definition setitem_significant :: "dge_row list \<Rightarrow> string list \<Rightarrow> dge_row list" where
  "setitem_significant df labels = map2 (\<lambda>r l. r\<lparr>significant := Some l\<rparr>) df labels"

definition significant_labels :: "dge_row list \<Rightarrow> flt \<Rightarrow> flt \<Rightarrow> string list" where
  "significant_labels filtered_dge pval_cut logfc_cut =
     map_label
       (mask_and (col_lt (map p_val_adj filtered_dge) pval_cut)
                 (col_gt (col_abs (map avg_log2FC filtered_dge)) logfc_cut))"

definition assign_significant :: "dge_row list \<Rightarrow> flt \<Rightarrow> flt \<Rightarrow> dge_row list" where
  "assign_significant filtered_dge pval_cut logfc_cut =
     setitem_significant filtered_dge (significant_labels filtered_dge pval_cut logfc_cut)"

section \<open>Data loader\<close>

text \<open>
  Python exceptions are values. \<open>pd.concat\<close> of an empty list raises
  \<open>ValueError: No objects to concatenate\<close>; the builtin \<open>min\<close> of an empty sequence raises
  \<open>ValueError: min() arg is an empty sequence\<close>; subscripting \<open>None\<close> and ordering text
  against a number raise \<open>TypeError\<close>. \<open>ReadError\<close> is any exception of \<open>pd.read_csv\<close>
  other than \<open>FileNotFoundError\<close> (\<open>EmptyDataError\<close>, \<open>PermissionError\<close>, \<open>ParserError\<close>,
  ...), by its name.
\<close>

datatype error = ValueError string | TypeError string | ReadError string

text \<open>
  The files on disk: what \<open>pd.read_csv\<close> does at each path. No entry is a file that does
  not exist (\<open>FileNotFoundError\<close>); \<open>Inl\<close> is another exception; \<open>Inr\<close> is the frame read.
  A DGE file has a column \<open>cell\<close>, renamed to \<open>cell_type\<close> after the concatenation
  (line 33); a GSEA file has \<open>Term\<close> and \<open>FDR q-val\<close>, renamed to \<open>pathway\<close> and \<open>padj\<close>
  (line 47). The rows carry these cells under the final column names.
\<close>

record files =
  dge_csv :: "string \<rightharpoonup> error + dge_row list"
  gsea_csv :: "string \<rightharpoonup> error + gsea_row list"

text \<open>
  \<open>read_data\<close> (lines 14 to 19): the frame; or a warning and \<open>None\<close> for a file that does
  not exist; any other exception is not caught.
\<close>

definition read_data :: "(string \<rightharpoonup> error + 'a) \<Rightarrow> string \<Rightarrow> string list \<times> (error + 'a option)" where
  "read_data fs path =
     (case fs path of
        Some (Inr df) \<Rightarrow> ([], Inr (Some df))
      | Some (Inl e) \<Rightarrow> ([], Inl e)
      | None \<Rightarrow> ([''File not found: '' @ path], Inr None))"

definition dge_files :: "(string \<times> string) list" where
  "dge_files =
     [(''cd45pos_rrg'', ''data/cd45pos_rrgcell_degs_wilcoxon.csv''),
      (''cd45pos_jeff'', ''data/cd45pos_jeffcell_degs_wilcoxon.csv''),
      (''cd45neg_rrg'', ''data/cd45neg_rrgcell_degs_wilcoxon.csv'')]"

definition gsea_files :: "(string \<times> string) list" where
  "gsea_files =
     [(''cd45pos_rrg'', ''data/cd45pos_rrgcell_gsea.csv''),
      (''cd45pos_jeff'', ''data/cd45pos_jeffcell_gsea.csv''),
      (''cd45neg_rrg'', ''data/cd45neg_rrgcell_gsea.csv'')]"

text \<open>\<open>df['dataset'] = name\<close>: the column is set to the constant in every row.\<close>

definition set_dataset :: "'a sel_row_scheme list \<Rightarrow> string \<Rightarrow> 'a sel_row_scheme list" where
  "set_dataset df name = map (\<lambda>r. r\<lparr>dataset := name\<rparr>) df"

text \<open>
  The loop over \<open>files.items()\<close> (lines 28 to 32 and 42 to 46), in the dictionary's
  insertion order, with the warnings shown so far and the list built so far. An exception
  of \<open>read_data\<close> ends it.
\<close>

fun load_loop :: "(string \<rightharpoonup> error + 'a sel_row_scheme list) \<Rightarrow> (string \<times> string) list \<Rightarrow>
    string list \<times> 'a sel_row_scheme list list \<Rightarrow>
    string list \<times> (error + 'a sel_row_scheme list list)" where
  "load_loop fs [] (w, acc) = (w, Inr acc)"
| "load_loop fs ((name, path) # rest) (w, acc) =
     (case read_data fs path of
        (w', Inl e) \<Rightarrow> (w @ w', Inl e)
      | (w', Inr None) \<Rightarrow> load_loop fs rest (w @ w', acc)
      | (w', Inr (Some df)) \<Rightarrow> load_loop fs rest (w @ w', acc @ [set_dataset df name]))"

definition pd_concat :: "'a list list \<Rightarrow> error + 'a list" where
  "pd_concat objs =
     (if objs = [] then Inl (ValueError ''No objects to concatenate'')
      else Inr (concat objs))"

text \<open>\<open>load_data\<close> (lines 10 to 49): the warnings shown, and the two tables or the exception.\<close>

definition load_data :: "files \<Rightarrow> string list \<times> (error + dge_row list \<times> gsea_row list)" where
  "load_data fs =
     (case load_loop (dge_csv fs) dge_files ([], []) of
        (w1, Inl e) \<Rightarrow> (w1, Inl e)
      | (w1, Inr dge_list) \<Rightarrow>
        (case pd_concat dge_list of
           Inl e \<Rightarrow> (w1, Inl e)
         | Inr all_dge \<Rightarrow>
             (case load_loop (gsea_csv fs) gsea_files (w1, []) of
                (w2, Inl e) \<Rightarrow> (w2, Inl e)
              | (w2, Inr gsea_list) \<Rightarrow>
                (case pd_concat gsea_list of
                   Inl e \<Rightarrow> (w2, Inl e)
                 | Inr all_gsea \<Rightarrow> (w2, Inr (all_dge, all_gsea))))))"

section \<open>Selection widgets\<close>

text \<open>
  What the user has picked in each widget is an input of a run: the position chosen in
  each select box and the values of the sliders (\<open>pval_cutoff\<close> is \<open>10**-pval_cutoff_log\<close>,
  line 111). A select box returns the option at the chosen position, the first option when
  that position does not exist, and \<open>None\<close> when it has no options.
\<close>

record ui =
  main_group_idx :: nat
  annotation_idx :: nat
  cell_type_idx :: nat
  comp1_idx :: nat
  comp2_idx :: nat
  logfc_cutoff :: flt
  pval_cutoff :: flt
  gsea_pathway_count :: nat

definition selectbox :: "'a list \<Rightarrow> nat \<Rightarrow> 'a option" where
  "selectbox opts i =
     (case opts of
        [] \<Rightarrow> None
      | x # _ \<Rightarrow> if i < length opts then Some (opts ! i) else Some x)"

text \<open>\<open>st.selectbox(...)[1]\<close>: the second component of the chosen pair.\<close>

definition subscript1 :: "('a \<times> 'b) option \<Rightarrow> error + 'b" where
  "subscript1 x =
     (case x of
        None \<Rightarrow> Inl (TypeError ''NoneType object is not subscriptable'')
      | Some p \<Rightarrow> Inr (snd p))"

definition main_group_options :: "(string \<times> string) list" where
  "main_group_options = [(''CD45 Positive'', ''cd45pos''), (''CD45 Negative'', ''cd45neg'')]"

definition annotation_options :: "(string \<times> string) list" where
  "annotation_options = [(''RRG Cell'', ''rrg''), (''Jeff Cell'', ''jeff'')]"

definition main_group :: "ui \<Rightarrow> error + string" where
  "main_group u = subscript1 (selectbox main_group_options (main_group_idx u))"

definition annotation_type :: "ui \<Rightarrow> error + string" where
  "annotation_type u = subscript1 (selectbox annotation_options (annotation_idx u))"

text \<open>Lines 66 to 74.\<close>

definition selected_dataset :: "ui \<Rightarrow> error + string" where
  "selected_dataset u =
     (case main_group u of
        Inl e \<Rightarrow> Inl e
      | Inr mg \<Rightarrow>
          if mg = ''cd45pos'' then
            (case annotation_type u of
               Inl e \<Rightarrow> Inl e
             | Inr ann \<Rightarrow> Inr (''cd45pos_'' @ ann))
          else Inr ''cd45neg_rrg'')"

section \<open>Orders the libraries leave open\<close>

text \<open>
  Two orders are not fixed by the libraries the script calls; they are inputs of a run.
  \<open>argsort\<close> is NumPy's default (quicksort) argsort as \<open>sort_values\<close> calls it on the keys
  that are not NaN: the positions of the keys in ascending order of the keys, with no
  promised order among equal keys. \<open>nan_order\<close> is the order in which \<open>list.sort\<close> leaves
  numbers when a NaN is among them (every comparison with NaN is false, so the result
  depends on which comparisons the algorithm makes).
\<close>

record library =
  argsort :: "flt list \<Rightarrow> nat list"
  nan_order :: "flt list \<Rightarrow> flt list"

section \<open>Cascading options\<close>

text \<open>
  \<open>Series.unique()\<close> keeps the first occurrence of each value, in order of appearance,
  and keeps one NaN.
\<close>

definition unique :: "'a list \<Rightarrow> 'a list" where
  "unique xs = rev (remdups (rev xs))"

fun flt_key :: "flt \<Rightarrow> nat \<times> real" where
  "flt_key NInf = (0, 0)"
| "flt_key (Fin a) = (1, a)"
| "flt_key PInf = (2, 0)"
| "flt_key NaN = (3, 0)"

text \<open>
  The builtin \<open>sorted\<close> on the values of a label column. A list of fewer than two values
  is returned as it is, without a comparison. Text is ordered lexicographically by code
  point (a text is the list of its UTF-8 bytes, whose lexicographic order is that of the
  code points) and numbers by value. When text and numbers are both present some
  comparison meets one of each, and \<open><\<close> between them raises \<open>TypeError\<close>.
\<close>

definition py_sorted :: "library \<Rightarrow> label list \<Rightarrow> error + label list" where
  "py_sorted lib xs =
     (if length xs < 2 then Inr xs
      else if list_all is_str xs then Inr (map Str (sort (map the_str xs)))
      else if list_ex is_str xs then
        Inl (TypeError ''< not supported between instances of str and a number'')
      else if list_ex (\<lambda>x. isna (the_num x)) xs then
        Inr (map Num (nan_order lib (map the_num xs)))
      else Inr (map Num (sort_key flt_key (map the_num xs))))"

text \<open>Line 77: \<open>dge_subset = all_dge[all_dge['dataset'] == selected_dataset]\<close>.\<close>

definition dge_subset_of :: "dge_row list \<Rightarrow> string \<Rightarrow> dge_row list" where
  "dge_subset_of all_dge sd = getitem_mask all_dge (col_eq (map dataset all_dge) sd)"

text \<open>Line 82.\<close>

definition cell_type_options :: "library \<Rightarrow> dge_row list \<Rightarrow> error + label list" where
  "cell_type_options lib dge_subset = py_sorted lib (unique (map cell_type dge_subset))"

text \<open>Line 86.\<close>

definition dge_cell_type_subset_of :: "dge_row list \<Rightarrow> label option \<Rightarrow> dge_row list" where
  "dge_cell_type_subset_of dge_subset ct =
     getitem_mask dge_subset (col_eq_sel (map cell_type dge_subset) ct)"

text \<open>Line 91.\<close>

definition comp1_options :: "library \<Rightarrow> dge_row list \<Rightarrow> error + label list" where
  "comp1_options lib dge_cell_type_subset =
     py_sorted lib (unique (map comp1 dge_cell_type_subset))"

text \<open>Line 96.\<close>

definition comp2_options :: "library \<Rightarrow> dge_row list \<Rightarrow> label option \<Rightarrow> error + label list" where
  "comp2_options lib dge_cell_type_subset c1 =
     py_sorted lib (unique (map comp2
       (getitem_mask dge_cell_type_subset (col_eq_sel (map comp1 dge_cell_type_subset) c1))))"

section \<open>Filter engine and volcano epsilon\<close>

text \<open>Lines 127 to 130.\<close>

definition filtered_dge_of :: "dge_row list \<Rightarrow> label option \<Rightarrow> label option \<Rightarrow> dge_row list" where
  "filtered_dge_of dge_cell_type_subset c1 c2 =
     getitem_mask dge_cell_type_subset
       (mask_and (col_eq_sel (map comp1 dge_cell_type_subset) c1)
                 (col_eq_sel (map comp2 dge_cell_type_subset) c2))"

text \<open>
  The builtin \<open>min\<close> over the values of a series: an exception when there is none,
  otherwise the first value that no later one is smaller than.
\<close>

definition py_min :: "flt list \<Rightarrow> error + flt" where
  "py_min xs =
     (case xs of
        [] \<Rightarrow> Inl (ValueError ''min() arg is an empty sequence'')
      | x # rest \<Rightarrow> Inr (foldl (\<lambda>m v. if flt_lt v m then v else m) x rest))"

text \<open>
  Line 146, the offset of the volcano plot's y axis:
  \<open>min(filtered_dge['p_val_adj'][filtered_dge['p_val_adj'] > 0])\<close>.
\<close>

definition volcano_epsilon :: "dge_row list \<Rightarrow> error + flt" where
  "volcano_epsilon filtered_dge =
     py_min (getitem_mask (map p_val_adj filtered_dge)
               (col_gt (map p_val_adj filtered_dge) (Fin 0)))"

text \<open>
  \<open>sort_values('padj')\<close>: the rows whose key is not NaN, in the order \<open>argsort\<close> gives for
  their keys, followed by the rows whose key is NaN in their original order.
\<close>

definition sort_values_padj :: "library \<Rightarrow> gsea_row list \<Rightarrow> gsea_row list" where
  "sort_values_padj lib df =
     (let non_nans = filter (\<lambda>r. \<not> isna (padj r)) df
      in map (\<lambda>j. non_nans ! j) (argsort lib (map padj non_nans))
           @ filter (\<lambda>r. isna (padj r)) df)"

definition head :: "nat \<Rightarrow> 'a list \<Rightarrow> 'a list" where
  "head n df = take n df"

text \<open>Lines 168 to 173.\<close>

definition filtered_gsea_of ::
    "library \<Rightarrow> gsea_row list \<Rightarrow> string \<Rightarrow> label option \<Rightarrow> label option \<Rightarrow> label option \<Rightarrow> nat \<Rightarrow>
     gsea_row list" where
  "filtered_gsea_of lib all_gsea sd ct c1 c2 n =
     head n (sort_values_padj lib
       (getitem_mask all_gsea
          (mask_and
             (mask_and
                (mask_and (col_eq (map dataset all_gsea) sd)
                          (col_eq_sel (map cell_type all_gsea) ct))
                (col_eq_sel (map comp1 all_gsea) c1))
             (col_eq_sel (map comp2 all_gsea) c2))))"

section \<open>The script on a store of frames\<close>

text \<open>
  A DataFrame is an object and a variable holds a reference to it. Indexing a frame with
  a boolean mask, \<open>sort_values\<close> and \<open>head\<close> build a new frame and leave the indexed one as
  it is; \<open>df[col] = values\<close> changes the frame that \<open>df\<close> refers to, in place. The store
  keeps the frames by reference (the position in the list).
\<close>

record store =
  dge_objs :: "dge_row list list"
  gsea_objs :: "gsea_row list list"

definition new_dge :: "store \<Rightarrow> dge_row list \<Rightarrow> store \<times> nat" where
  "new_dge s df = (s\<lparr>dge_objs := dge_objs s @ [df]\<rparr>, length (dge_objs s))"

definition new_gsea :: "store \<Rightarrow> gsea_row list \<Rightarrow> store \<times> nat" where
  "new_gsea s df = (s\<lparr>gsea_objs := gsea_objs s @ [df]\<rparr>, length (gsea_objs s))"

definition setitem_significant_at :: "store \<Rightarrow> nat \<Rightarrow> string list \<Rightarrow> store" where
  "setitem_significant_at s a labels =
     s\<lparr>dge_objs := (dge_objs s)[a := setitem_significant (dge_objs s ! a) labels]\<rparr>"

text \<open>
  Tab 1 (lines 127 to 163) after \<open>filtered_dge\<close> is built: the warning when it is empty;
  otherwise the column assignment and the arguments of the scatter plot, of which the
  epsilon can raise. Drawing the figure and the table is left to the plotting library.
\<close>

definition tab1 :: "store \<Rightarrow> nat \<Rightarrow> ui \<Rightarrow> store \<times> string list \<times> error option" where
  "tab1 s filtered_dge u =
     (if dge_objs s ! filtered_dge = [] then
        (s, [''No data available for the current selection.''], None)
      else
        let s' = setitem_significant_at s filtered_dge
                   (significant_labels (dge_objs s ! filtered_dge) (pval_cutoff u) (logfc_cutoff u))
        in case volcano_epsilon (dge_objs s' ! filtered_dge) of
             Inl e \<Rightarrow> (s', [], Some e)
           | Inr eps \<Rightarrow> (s', [], None))"

text \<open>Tab 2 (lines 166 to 200): the filtered frame and the warning when it is empty.\<close>

definition tab2 :: "library \<Rightarrow> store \<Rightarrow> nat \<Rightarrow> string \<Rightarrow> label option \<Rightarrow> label option \<Rightarrow>
    label option \<Rightarrow> ui \<Rightarrow> store \<times> nat \<times> string list" where
  "tab2 lib s all_gsea sd ct c1 c2 u =
     (case new_gsea s (filtered_gsea_of lib (gsea_objs s ! all_gsea) sd ct c1 c2
                         (gsea_pathway_count u)) of
        (s', filtered_gsea) \<Rightarrow>
          (s', filtered_gsea,
           if gsea_objs s' ! filtered_gsea = []
           then [''No GSEA data available for the current selection.''] else []))"

record outcome =
  final :: store
  shown :: "string list"
  raised :: "error option"
  filtered_dge_ref :: "nat option"
  filtered_gsea_ref :: "nat option"

definition stopped :: "store \<Rightarrow> error \<Rightarrow> outcome" where
  "stopped s e = \<lparr>final = s, shown = [], raised = Some e,
                  filtered_dge_ref = None, filtered_gsea_ref = None\<rparr>"

text \<open>
  One pass of the script after loading (lines 51 to 200), on the two loaded tables and the
  state of the widgets. An exception ends the pass where it is raised.
\<close>

definition script :: "library \<Rightarrow> dge_row list \<Rightarrow> gsea_row list \<Rightarrow> ui \<Rightarrow> outcome" where
  "script lib all_dge0 all_gsea0 u =
     (let s0 = \<lparr>dge_objs = [all_dge0], gsea_objs = [all_gsea0]\<rparr>;
          all_dge = 0; all_gsea = 0
      in case selected_dataset u of
           Inl e \<Rightarrow> stopped s0 e
         | Inr sd \<Rightarrow>
            (case new_dge s0 (dge_subset_of (dge_objs s0 ! all_dge) sd) of (s1, dge_subset) \<Rightarrow>
            (case cell_type_options lib (dge_objs s1 ! dge_subset) of
               Inl e \<Rightarrow> stopped s1 e
             | Inr cell_type_opts \<Rightarrow>
            (let ct = selectbox cell_type_opts (cell_type_idx u)
             in case new_dge s1 (dge_cell_type_subset_of (dge_objs s1 ! dge_subset) ct) of
                  (s2, dge_cell_type_subset) \<Rightarrow>
            (case comp1_options lib (dge_objs s2 ! dge_cell_type_subset) of
               Inl e \<Rightarrow> stopped s2 e
             | Inr comp1_opts \<Rightarrow>
            (let c1 = selectbox comp1_opts (comp1_idx u)
             in case comp2_options lib (dge_objs s2 ! dge_cell_type_subset) c1 of
               Inl e \<Rightarrow> stopped s2 e
             | Inr comp2_opts \<Rightarrow>
            (let c2 = selectbox comp2_opts (comp2_idx u)
             in case new_dge s2 (filtered_dge_of (dge_objs s2 ! dge_cell_type_subset) c1 c2) of
                  (s3, filtered_dge) \<Rightarrow>
            (case tab1 s3 filtered_dge u of
               (s4, w1, Some e) \<Rightarrow>
                 \<lparr>final = s4, shown = w1, raised = Some e,
                  filtered_dge_ref = Some filtered_dge, filtered_gsea_ref = None\<rparr>
             | (s4, w1, None) \<Rightarrow>
                 (case tab2 lib s4 all_gsea sd ct c1 c2 u of (s5, filtered_gsea, w2) \<Rightarrow>
                    \<lparr>final = s5, shown = w1 @ w2, raised = None,
                     filtered_dge_ref = Some filtered_dge,
                     filtered_gsea_ref = Some filtered_gsea\<rparr>)))))))))"

section \<open>Reference predicates\<close>

text \<open>
  A cell matches the value selected when it is that value; a missing cell matches nothing,
  and nothing matches when no value is selected.
\<close>

definition sel_match :: "label \<Rightarrow> label option \<Rightarrow> bool" where
  "sel_match x v \<longleftrightarrow> v = Some x \<and> x \<noteq> Num NaN"

text \<open>The rows of a table that match a selection in all four fields.\<close>

definition matches :: "string \<Rightarrow> label option \<Rightarrow> label option \<Rightarrow> label option \<Rightarrow>
    'a sel_row_scheme \<Rightarrow> bool" where
  "matches sd ct c1 c2 r \<longleftrightarrow>
     dataset r = sd \<and> sel_match (cell_type r) ct \<and> sel_match (comp1 r) c1
       \<and> sel_match (comp2 r) c2"

text \<open>
  Ascending order of two sort keys, a missing key after every other key: the later key is
  NaN, or neither is and the earlier is at most the later.
\<close>

fun key_ascending :: "flt \<Rightarrow> flt \<Rightarrow> bool" where
  "key_ascending a NaN = True"
| "key_ascending NaN b = False"
| "key_ascending NInf b = True"
| "key_ascending a PInf = True"
| "key_ascending (Fin x) (Fin y) = (x \<le> y)"
| "key_ascending a b = False"

text \<open>
  What the script relies on from \<open>argsort\<close> at a list of keys: the result lists every
  position once, and the keys at these positions ascend.
\<close>

definition argsort_ok :: "nat list \<Rightarrow> flt list \<Rightarrow> bool" where
  "argsort_ok idx ks \<longleftrightarrow>
     sort idx = [0..<length ks] \<and> sorted_wrt (\<lambda>i j. key_ascending (ks ! i) (ks ! j)) idx"



text \<open>
  The sources that load, with their frames, in configured order; that no configured file
  fails to read for another reason than being absent; and the rows of the given sources,
  each with its source key in \<open>dataset\<close>, one source after the other.
\<close>

definition loaded :: "(string \<rightharpoonup> error + 'a) \<Rightarrow> (string \<times> string) list \<Rightarrow> (string \<times> 'a) list" where
  "loaded fs fl =
     concat (map (\<lambda>(name, path). case fs path of Some (Inr df) \<Rightarrow> [(name, df)] | _ \<Rightarrow> []) fl)"

definition no_read_error :: "(string \<rightharpoonup> error + 'a) \<Rightarrow> (string \<times> string) list \<Rightarrow> bool" where
  "no_read_error fs fl =
     list_all (\<lambda>(name, path). case fs path of Some (Inl e) \<Rightarrow> False | _ \<Rightarrow> True) fl"

definition tagged :: "(string \<times> 'a sel_row_scheme list) list \<Rightarrow> 'a sel_row_scheme list" where
  "tagged srcs = concat (map (\<lambda>(name, df). map (\<lambda>r. r\<lparr>dataset := name\<rparr>) df) srcs)"

section \<open>Example inputs\<close>

text \<open>
  The two rows of the example scenario, and rows at the edges of the classifier: a negative
  fold change, a fold change equal to the cutoff, an adjusted p-value equal to the cutoff,
  a missing adjusted p-value and an infinite negative fold change.
\<close>

definition example_dge :: "dge_row list" where
  "example_dge =
     [\<lparr>dataset = ''cd45pos_rrg'', cell_type = Str ''T'', comp1 = Str ''X'', comp2 = Str ''Y'',
       gene = ''A'', avg_log2FC = Fin 1.2, p_val_adj = Fin 0.001, significant = None\<rparr>,
      \<lparr>dataset = ''cd45pos_rrg'', cell_type = Str ''T'', comp1 = Str ''X'', comp2 = Str ''Y'',
       gene = ''B'', avg_log2FC = Fin 0.1, p_val_adj = Fin 0.2, significant = None\<rparr>]"

definition edge_dge :: "dge_row list" where
  "edge_dge =
     [\<lparr>dataset = ''cd45pos_rrg'', cell_type = Str ''T'', comp1 = Str ''X'', comp2 = Str ''Y'',
       gene = ''C'', avg_log2FC = Fin (- 1.2), p_val_adj = Fin 0.001, significant = None\<rparr>,
      \<lparr>dataset = ''cd45pos_rrg'', cell_type = Str ''T'', comp1 = Str ''X'', comp2 = Str ''Y'',
       gene = ''D'', avg_log2FC = Fin 0.5, p_val_adj = Fin 0.001, significant = None\<rparr>,
      \<lparr>dataset = ''cd45pos_rrg'', cell_type = Str ''T'', comp1 = Str ''X'', comp2 = Str ''Y'',
       gene = ''E'', avg_log2FC = Fin 1.2, p_val_adj = Fin 0.05, significant = None\<rparr>,
      \<lparr>dataset = ''cd45pos_rrg'', cell_type = Str ''T'', comp1 = Str ''X'', comp2 = Str ''Y'',
       gene = ''F'', avg_log2FC = Fin 1.2, p_val_adj = NaN, significant = None\<rparr>,
      \<lparr>dataset = ''cd45pos_rrg'', cell_type = Str ''T'', comp1 = Str ''X'', comp2 = Str ''Y'',
       gene = ''G'', avg_log2FC = NInf, p_val_adj = Fin 0.001, significant = None\<rparr>]"

text \<open>A state of the widgets: CD45 negative chosen, with an annotation still held.\<close>

definition ui0 :: ui where
  "ui0 = \<lparr>main_group_idx = 1, annotation_idx = 1, cell_type_idx = 0, comp1_idx = 0,
          comp2_idx = 0, logfc_cutoff = Fin 0.5, pval_cutoff = Fin 0.05,
          gsea_pathway_count = 20\<rparr>"

text \<open>
  A disk with none of the six files, a filtered set whose only adjusted p-value is zero, a
  GSEA table, a disk with two DGE files and one GSEA file, and the same disk with a third
  DGE file that exists but is empty, on which \<open>read_csv\<close> raises \<open>EmptyDataError\<close>.
\<close>

definition no_files :: files where
  "no_files = \<lparr>dge_csv = Map.empty, gsea_csv = Map.empty\<rparr>"

definition zero_dge :: "dge_row list" where
  "zero_dge =
     [\<lparr>dataset = ''cd45neg_rrg'', cell_type = Str ''T'', comp1 = Str ''X'', comp2 = Str ''Y'',
       gene = ''A'', avg_log2FC = Fin 1.2, p_val_adj = Fin 0, significant = None\<rparr>]"

definition example_gsea :: "gsea_row list" where
  "example_gsea =
     [\<lparr>dataset = ''cd45neg_rrg'', cell_type = Str ''T'', comp1 = Str ''X'', comp2 = Str ''Y'',
       pathway = ''P1'', path_name = ''P1'', reference = ''H'', NES = Fin 1.5, padj = Fin 0.2,
       Lead_genes = ''A'', Tag_pct = ''1/2'', Gene_pct = ''10%''\<rparr>,
      \<lparr>dataset = ''cd45neg_rrg'', cell_type = Str ''T'', comp1 = Str ''X'', comp2 = Str ''Y'',
       pathway = ''P2'', path_name = ''P2'', reference = ''H'', NES = Fin (- 2), padj = NaN,
       Lead_genes = ''A'', Tag_pct = ''1/2'', Gene_pct = ''10%''\<rparr>,
      \<lparr>dataset = ''cd45neg_rrg'', cell_type = Str ''T'', comp1 = Str ''X'', comp2 = Str ''Y'',
       pathway = ''P3'', path_name = ''P3'', reference = ''H'', NES = Fin 0.7, padj = Fin 0.01,
       Lead_genes = ''A'', Tag_pct = ''1/2'', Gene_pct = ''10%''\<rparr>]"

definition example_files :: files where
  "example_files =
     \<lparr>dge_csv = map_of [(''data/cd45pos_jeffcell_degs_wilcoxon.csv'', Inr example_dge),
                        (''data/cd45neg_rrgcell_degs_wilcoxon.csv'', Inr zero_dge)],
      gsea_csv = map_of [(''data/cd45neg_rrgcell_gsea.csv'', Inr example_gsea)]\<rparr>"

definition unreadable_files :: files where
  "unreadable_files =
     \<lparr>dge_csv = map_of [(''data/cd45pos_rrgcell_degs_wilcoxon.csv'', Inl (ReadError ''EmptyDataError'')),
                        (''data/cd45pos_jeffcell_degs_wilcoxon.csv'', Inr example_dge),
                        (''data/cd45neg_rrgcell_degs_wilcoxon.csv'', Inr zero_dge)],
      gsea_csv = map_of [(''data/cd45neg_rrgcell_gsea.csv'', Inr example_gsea)]\<rparr>"

text \<open>
  Two instances of the open orders: one keeps equal keys in their original order, the
  other reverses them. A GSEA table with equal keys, the first two rows of another
  selection.
\<close>

definition argsort_stable :: "flt list \<Rightarrow> nat list" where
  "argsort_stable ks = sort_key (\<lambda>i. flt_key (ks ! i)) [0..<length ks]"

definition argsort_rev :: "flt list \<Rightarrow> nat list" where
  "argsort_rev ks = sort_key (\<lambda>i. flt_key (ks ! i)) (rev [0..<length ks])"

definition lib_stable :: library where
  "lib_stable = \<lparr>argsort = argsort_stable, nan_order = (\<lambda>xs. xs)\<rparr>"

definition lib_rev :: library where
  "lib_rev = \<lparr>argsort = argsort_rev, nan_order = rev\<rparr>"

definition gsea_at :: "string \<Rightarrow> string \<Rightarrow> flt \<Rightarrow> gsea_row" where
  "gsea_at c p k =
     \<lparr>dataset = ''cd45neg_rrg'', cell_type = Str ''T'', comp1 = Str c, comp2 = Str ''Y'',
      pathway = p, path_name = p, reference = ''H'', NES = Fin 1, padj = k,
      Lead_genes = ''A'', Tag_pct = ''1/2'', Gene_pct = ''10%''\<rparr>"

definition tied_gsea :: "gsea_row list" where
  "tied_gsea =
     [gsea_at ''W'' ''Q0'' (Fin 0.001), gsea_at ''W'' ''Q1'' (Fin 0.001),
      gsea_at ''X'' ''P0'' (Fin 0.2), gsea_at ''X'' ''P1'' (Fin 0.01), gsea_at ''X'' ''P2'' NaN,
      gsea_at ''X'' ''P3'' (Fin 0.01), gsea_at ''X'' ''P4'' (Fin 0.2)]"





section \<open>Properties of the classifier\<close>

lemma length_assign_significant:
  "length (assign_significant df P L) = length df"
  by (simp add: assign_significant_def significant_labels_def setitem_significant_def
      map_label_def mask_and_def col_lt_def col_gt_def col_abs_def)

lemma nth_assign_significant:
  assumes "i < length df"
  shows "assign_significant df P L ! i =
    (df ! i)\<lparr>significant :=
       Some (if flt_lt (p_val_adj (df ! i)) P \<and> flt_gt (flt_abs (avg_log2FC (df ! i))) L
             then ''Significant'' else ''Not Significant'')\<rparr>"
  using assms
  by (simp add: assign_significant_def significant_labels_def setitem_significant_def
      map_label_def mask_and_def col_lt_def col_gt_def col_abs_def)

lemma flt_lt_le_trans: "flt_lt a b \<Longrightarrow> flt_le b c \<Longrightarrow> flt_lt a c"
  by (cases a; cases b; cases c) auto

lemma flt_le_lt_trans: "flt_le a b \<Longrightarrow> flt_lt b c \<Longrightarrow> flt_lt a c"
  by (cases a; cases b; cases c) auto

lemma significant_edge_dge:
  "map significant (assign_significant edge_dge (Fin 0.05) (Fin 0.5)) =
     [Some ''Significant'', Some ''Not Significant'', Some ''Not Significant'',
      Some ''Not Significant'', Some ''Significant'']"
  by (simp add: edge_dge_def assign_significant_def significant_labels_def
      setitem_significant_def map_label_def mask_and_def col_lt_def col_gt_def col_abs_def
      flt_gt_def)

section \<open>Masks, filters and the sort\<close>

lemma getitem_mask_filter: "getitem_mask df (map P df) = filter P df"
  by (induction df) (simp_all add: getitem_mask_def)

lemma mask_and_map: "mask_and (map P xs) (map Q xs) = map (\<lambda>x. P x \<and> Q x) xs"
  by (induction xs) (simp_all add: mask_and_def)

lemma col_eq_map: "col_eq (map f df) v = map (\<lambda>r. f r = v) df"
  by (simp add: col_eq_def)

lemma flt_eq_iff: "flt_eq a b \<longleftrightarrow> a = b \<and> a \<noteq> NaN"
  by (cases a; cases b) auto

lemma label_eq_iff: "label_eq x y \<longleftrightarrow> x = y \<and> x \<noteq> Num NaN"
  by (cases x; cases y) (auto simp: flt_eq_iff)

lemma col_eq_sel_map: "col_eq_sel (map f df) v = map (\<lambda>r. sel_match (f r) v) df"
  by (cases v) (auto simp: col_eq_sel_def sel_match_def label_eq_iff)

lemma isna_iff: "isna k \<longleftrightarrow> k = NaN"
  by (cases k) simp_all

lemma filtered_gsea_of_filter:
  "filtered_gsea_of lib all_gsea sd ct c1 c2 n =
     take n (sort_values_padj lib (filter (matches sd ct c1 c2) all_gsea))"
proof -
  have "(\<lambda>r::gsea_row. ((dataset r = sd \<and> sel_match (cell_type r) ct) \<and> sel_match (comp1 r) c1)
            \<and> sel_match (comp2 r) c2) = matches sd ct c1 c2"
    by (auto simp: matches_def fun_eq_iff)
  then show ?thesis
    by (simp add: filtered_gsea_of_def head_def col_eq_map col_eq_sel_map mask_and_map
        getitem_mask_filter)
qed

lemma non_nan_keys:
  "map padj (filter (\<lambda>r. \<not> isna (padj r)) df) = filter (\<lambda>k. k \<noteq> NaN) (map padj df)"
  by (induction df) (simp_all add: isna_iff)

lemma argsort_ok_mset:
  assumes "argsort_ok idx ks"
  shows "mset idx = mset [0..<length ks]"
proof -
  have "mset (sort idx) = mset idx"
    by simp
  with assms show ?thesis
    unfolding argsort_ok_def by metis
qed

lemma mset_take_positions:
  assumes "mset idx = mset [0..<length xs]"
  shows "mset (map (\<lambda>j. xs ! j) idx) = mset xs"
proof -
  have "mset (map (\<lambda>j. xs ! j) idx) = image_mset (\<lambda>j. xs ! j) (mset idx)"
    by simp
  also have "\<dots> = image_mset (\<lambda>j. xs ! j) (mset [0..<length xs])"
    by (simp only: assms)
  also have "\<dots> = mset (map (\<lambda>j. xs ! j) [0..<length xs])"
    by simp
  also have "\<dots> = mset xs"
    by (simp only: map_nth)
  finally show ?thesis .
qed

lemma mset_sort_values_padj:
  assumes "argsort_ok (argsort lib [k \<leftarrow> map padj df. k \<noteq> NaN]) [k \<leftarrow> map padj df. k \<noteq> NaN]"
  shows "mset (sort_values_padj lib df) = mset df"
proof -
  let ?nn = "filter (\<lambda>r. \<not> isna (padj r)) df"
  let ?ks = "map padj ?nn"
  have ok: "argsort_ok (argsort lib ?ks) ?ks"
    using assms by (simp only: non_nan_keys)
  have "mset (argsort lib ?ks) = mset [0..<length ?nn]"
    using argsort_ok_mset [OF ok] by simp
  then have "mset (map (\<lambda>j. ?nn ! j) (argsort lib ?ks)) = mset ?nn"
    by (rule mset_take_positions)
  moreover have "mset ?nn + mset (filter (\<lambda>r. isna (padj r)) df) = mset df"
    by (induction df) simp_all
  ultimately show ?thesis
    by (simp add: sort_values_padj_def Let_def)
qed

lemma sorted_sort_values_padj:
  assumes "argsort_ok (argsort lib [k \<leftarrow> map padj df. k \<noteq> NaN]) [k \<leftarrow> map padj df. k \<noteq> NaN]"
  shows "sorted_wrt (\<lambda>a b. key_ascending (padj a) (padj b)) (sort_values_padj lib df)"
proof -
  define nn where "nn = filter (\<lambda>r. \<not> isna (padj r)) df"
  define N where "N = filter (\<lambda>r. isna (padj r)) df"
  define ks where "ks = map padj nn"
  define idx where "idx = argsort lib ks"
  have ok: "argsort_ok idx ks"
    using assms unfolding idx_def ks_def nn_def by (simp only: non_nan_keys)
  have seteq: "set idx = set [0..<length ks]"
    using argsort_ok_mset [OF ok] by (rule mset_eq_setD)
  have bound: "j < length nn" if "j \<in> set idx" for j
  proof -
    from that have "j \<in> set [0..<length ks]"
      unfolding seteq .
    then show ?thesis
      by (simp add: ks_def)
  qed
  have asc: "sorted_wrt (\<lambda>i j. key_ascending (ks ! i) (ks ! j)) idx"
    using ok unfolding argsort_ok_def by (rule conjunct2)
  have "sorted_wrt (\<lambda>i j. key_ascending (padj (nn ! i)) (padj (nn ! j))) idx"
  proof (rule sorted_wrt_mono_rel [OF _ asc])
    fix i j assume i: "i \<in> set idx" and j: "j \<in> set idx"
      and k: "key_ascending (ks ! i) (ks ! j)"
    have "ks ! i = padj (nn ! i)"
      unfolding ks_def using bound [OF i] by (rule nth_map)
    moreover have "ks ! j = padj (nn ! j)"
      unfolding ks_def using bound [OF j] by (rule nth_map)
    ultimately have "key_ascending (ks ! i) (ks ! j) = key_ascending (padj (nn ! i)) (padj (nn ! j))"
      by (simp only:)
    then show "key_ascending (padj (nn ! i)) (padj (nn ! j))"
      using k by (rule iffD1)
  qed
  then have s: "sorted_wrt (\<lambda>a b. key_ascending (padj a) (padj b)) (map (\<lambda>j. nn ! j) idx)"
    unfolding sorted_wrt_map .
  have nan: "padj r = NaN" if "r \<in> set N" for r
    using that unfolding N_def by (simp add: isna_iff)
  have n: "sorted_wrt (\<lambda>a b. key_ascending (padj a) (padj b)) N"
  proof (rule sorted_wrt_mono_rel [OF _ sorted_wrt_true])
    fix a b assume "b \<in> set N"
    then have "padj b = NaN" by (rule nan)
    then show "key_ascending (padj a) (padj b)" by simp
  qed
  have sn: "\<forall>a\<in>set (map (\<lambda>j. nn ! j) idx). \<forall>b\<in>set N. key_ascending (padj a) (padj b)"
  proof (intro ballI)
    fix a b assume "b \<in> set N"
    then have "padj b = NaN" by (rule nan)
    then show "key_ascending (padj a) (padj b)" by simp
  qed
  have eq: "sort_values_padj lib df = map (\<lambda>j. nn ! j) idx @ N"
    by (simp add: sort_values_padj_def Let_def nn_def N_def ks_def idx_def)
  show ?thesis
    unfolding eq sorted_wrt_append using s n sn by (intro conjI)
qed

lemma tied_matching:
  "filter (matches ''cd45neg_rrg'' (Some (Str ''T'')) (Some (Str ''X'')) (Some (Str ''Y''))) tied_gsea =
     [gsea_at ''X'' ''P0'' (Fin 0.2), gsea_at ''X'' ''P1'' (Fin 0.01), gsea_at ''X'' ''P2'' NaN,
      gsea_at ''X'' ''P3'' (Fin 0.01), gsea_at ''X'' ''P4'' (Fin 0.2)]"
  by (simp add: tied_gsea_def matches_def sel_match_def gsea_at_def)

lemma tied_keys:
  "[k \<leftarrow> map padj (filter (matches ''cd45neg_rrg'' (Some (Str ''T'')) (Some (Str ''X''))
        (Some (Str ''Y''))) tied_gsea). k \<noteq> NaN] = [Fin 0.2, Fin 0.01, Fin 0.01, Fin 0.2]"
  unfolding tied_matching by (simp add: gsea_at_def)

lemma argsort_rev_tied: "argsort_rev [Fin 0.2, Fin 0.01, Fin 0.01, Fin 0.2] = [2, 1, 3, 0]"
  by (simp add: argsort_rev_def upt_rec less_eq_prod_def numeral_nat)

lemma argsort_stable_tied: "argsort_stable [Fin 0.2, Fin 0.01, Fin 0.01, Fin 0.2] = [1, 2, 0, 3]"
  by (simp add: argsort_stable_def upt_rec less_eq_prod_def numeral_nat)

lemma argsort_ok_tied:
  "argsort_ok [2, 1, 3, 0] [Fin 0.2, Fin 0.01, Fin 0.01, Fin 0.2]"
  "argsort_ok [1, 2, 0, 3] [Fin 0.2, Fin 0.01, Fin 0.01, Fin 0.2]"
  by (simp_all add: argsort_ok_def upt_rec numeral_nat)

lemma tied_top_rev:
  "map pathway (filtered_gsea_of lib_rev tied_gsea ''cd45neg_rrg'' (Some (Str ''T''))
      (Some (Str ''X'')) (Some (Str ''Y'')) 3) = [''P3'', ''P1'', ''P4'']"
  unfolding filtered_gsea_of_filter tied_matching
  using argsort_rev_tied by (simp add: sort_values_padj_def lib_rev_def gsea_at_def)

lemma tied_top_stable:
  "map pathway (filtered_gsea_of lib_stable tied_gsea ''cd45neg_rrg'' (Some (Str ''T''))
      (Some (Str ''X'')) (Some (Str ''Y'')) 3) = [''P1'', ''P3'', ''P0'']"
  unfolding filtered_gsea_of_filter tied_matching
  using argsort_stable_tied by (simp add: sort_values_padj_def lib_stable_def gsea_at_def)

section \<open>Options and selection\<close>













lemma dge_subset_of_filter: "dge_subset_of all_dge sd = filter (\<lambda>r. dataset r = sd) all_dge"
  by (simp add: dge_subset_of_def col_eq_map getitem_mask_filter)

lemma dge_cell_type_subset_of_filter:
  "dge_cell_type_subset_of sub ct = filter (\<lambda>r. sel_match (cell_type r) ct) sub"
  by (simp add: dge_cell_type_subset_of_def col_eq_sel_map getitem_mask_filter)

lemma filtered_dge_of_filter:
  "filtered_dge_of sub c1 c2 =
     filter (\<lambda>r. sel_match (comp1 r) c1 \<and> sel_match (comp2 r) c2) sub"
  by (simp add: filtered_dge_of_def col_eq_sel_map mask_and_map getitem_mask_filter)

lemma comp2_options_filter:
  "comp2_options lib sub c1 =
     py_sorted lib (unique (map comp2 (filter (\<lambda>r. sel_match (comp1 r) c1) sub)))"
  by (simp add: comp2_options_def col_eq_sel_map getitem_mask_filter)

lemma selectbox_two: "selectbox [a, b] i = Some (if i = 1 then b else a)"
  by (cases i; cases "i - 1") (simp_all add: selectbox_def)

lemma main_group_eq:
  "main_group u = Inr (if main_group_idx u = 1 then ''cd45neg'' else ''cd45pos'')"
  by (simp add: main_group_def main_group_options_def selectbox_two subscript1_def)

lemma annotation_type_eq:
  "annotation_type u = Inr (if annotation_idx u = 1 then ''jeff'' else ''rrg'')"
  by (simp add: annotation_type_def annotation_options_def selectbox_two subscript1_def)

lemma selected_dataset_eq:
  "selected_dataset u =
     Inr (if main_group_idx u = 1 then ''cd45neg_rrg''
          else if annotation_idx u = 1 then ''cd45pos_jeff'' else ''cd45pos_rrg'')"
  by (simp add: selected_dataset_def main_group_eq annotation_type_eq)











section \<open>The loader\<close>

lemma loaded_Nil: "loaded fs [] = []"
  by (simp add: loaded_def)

lemma loaded_Cons:
  "loaded fs ((name, path) # fl) =
     (case fs path of Some (Inr df) \<Rightarrow> [(name, df)] | _ \<Rightarrow> []) @ loaded fs fl"
  by (simp add: loaded_def)

lemma no_read_error_Cons:
  "no_read_error fs ((name, path) # fl) \<longleftrightarrow>
     (\<forall>e. fs path \<noteq> Some (Inl e)) \<and> no_read_error fs fl"
  by (auto simp: no_read_error_def split: option.splits sum.splits)

lemma load_loop_ok:
  "no_read_error fs fl \<Longrightarrow>
   snd (load_loop fs fl (w, acc)) =
     Inr (acc @ map (\<lambda>(name, df). set_dataset df name) (loaded fs fl))"
proof (induction fl arbitrary: w acc)
  case Nil
  show ?case by (simp add: loaded_Nil)
next
  case (Cons a fl)
  obtain name path where a: "a = (name, path)" by (cases a)
  from Cons.prems have ne: "\<forall>e. fs path \<noteq> Some (Inl e)" and rest: "no_read_error fs fl"
    unfolding a no_read_error_Cons by blast+
  show ?case
  proof (cases "fs path")
    case None
    then show ?thesis
      using Cons.IH [OF rest, of "w @ [''File not found: '' @ path]" acc]
      by (simp add: a read_data_def loaded_Cons)
  next
    case (Some x)
    with ne obtain df where "fs path = Some (Inr df)"
      by (cases x) auto
    then show ?thesis
      using Cons.IH [OF rest, of w "acc @ [set_dataset df name]"]
      by (simp add: a read_data_def loaded_Cons)
  qed
qed

lemma load_loop_returns:
  "snd (load_loop fs fl (w, acc)) = Inr l \<Longrightarrow> no_read_error fs fl"
proof (induction fl arbitrary: w acc)
  case Nil
  show ?case by (simp add: no_read_error_def)
next
  case (Cons a fl)
  obtain name path where a: "a = (name, path)" by (cases a)
  show ?case
  proof (cases "fs path")
    case None
    with Cons.prems have "snd (load_loop fs fl (w @ [''File not found: '' @ path], acc)) = Inr l"
      by (simp add: a read_data_def)
    then have "no_read_error fs fl" by (rule Cons.IH)
    with None show ?thesis
      unfolding a no_read_error_Cons by simp
  next
    case (Some x)
    show ?thesis
    proof (cases x)
      case (Inl e)
      with Some Cons.prems show ?thesis
        by (simp add: a read_data_def)
    next
      case (Inr df)
      with Some Cons.prems have "snd (load_loop fs fl (w, acc @ [set_dataset df name])) = Inr l"
        by (simp add: a read_data_def)
      then have "no_read_error fs fl" by (rule Cons.IH)
      with Some Inr show ?thesis
        unfolding a no_read_error_Cons by simp
    qed
  qed
qed

lemma concat_set_dataset:
  "concat (map (\<lambda>(name, df). set_dataset df name) srcs) = tagged srcs"
  by (simp add: tagged_def set_dataset_def)

lemma load_data_ok:
  assumes "no_read_error (dge_csv fs) dge_files" and "no_read_error (gsea_csv fs) gsea_files"
    and "loaded (dge_csv fs) dge_files \<noteq> []" and "loaded (gsea_csv fs) gsea_files \<noteq> []"
  shows "snd (load_data fs) =
     Inr (tagged (loaded (dge_csv fs) dge_files), tagged (loaded (gsea_csv fs) gsea_files))"
proof -
  obtain w1 r1 where 1: "load_loop (dge_csv fs) dge_files ([], []) = (w1, r1)"
    by (cases "load_loop (dge_csv fs) dge_files ([], [])")
  obtain w2 r2 where 2: "load_loop (gsea_csv fs) gsea_files (w1, []) = (w2, r2)"
    by (cases "load_loop (gsea_csv fs) gsea_files (w1, [])")
  have r1: "r1 = Inr (map (\<lambda>(name, df). set_dataset df name) (loaded (dge_csv fs) dge_files))"
    using load_loop_ok [OF assms(1), of "[]" "[]"] by (simp add: 1)
  have r2: "r2 = Inr (map (\<lambda>(name, df). set_dataset df name) (loaded (gsea_csv fs) gsea_files))"
    using load_loop_ok [OF assms(2), of w1 "[]"] by (simp add: 2)
  show ?thesis
    using assms(3,4) by (simp add: load_data_def 1 2 r1 r2 pd_concat_def concat_set_dataset)
qed

lemma load_data_returns:
  assumes "snd (load_data fs) = Inr t"
  shows "no_read_error (dge_csv fs) dge_files \<and> no_read_error (gsea_csv fs) gsea_files
     \<and> loaded (dge_csv fs) dge_files \<noteq> [] \<and> loaded (gsea_csv fs) gsea_files \<noteq> []"
proof -
  obtain w1 r1 where 1: "load_loop (dge_csv fs) dge_files ([], []) = (w1, r1)"
    by (cases "load_loop (dge_csv fs) dge_files ([], [])")
  obtain w2 r2 where 2: "load_loop (gsea_csv fs) gsea_files (w1, []) = (w2, r2)"
    by (cases "load_loop (gsea_csv fs) gsea_files (w1, [])")
  from assms obtain l1 where l1: "r1 = Inr l1" and c1: "l1 \<noteq> []"
    by (cases r1) (auto simp: load_data_def 1 pd_concat_def split: if_splits)
  from assms l1 c1 obtain l2 where l2: "r2 = Inr l2" and c2: "l2 \<noteq> []"
    by (cases r2) (auto simp: load_data_def 1 2 pd_concat_def split: if_splits)
  have n1: "no_read_error (dge_csv fs) dge_files"
    using load_loop_returns [of "dge_csv fs" dge_files "[]" "[]" l1] by (simp add: 1 l1)
  have n2: "no_read_error (gsea_csv fs) gsea_files"
    using load_loop_returns [of "gsea_csv fs" gsea_files w1 "[]" l2] by (simp add: 2 l2)
  have "l1 = map (\<lambda>(name, df). set_dataset df name) (loaded (dge_csv fs) dge_files)"
    using load_loop_ok [OF n1, of "[]" "[]"] by (simp add: 1 l1)
  with c1 have e1: "loaded (dge_csv fs) dge_files \<noteq> []" by auto
  have "l2 = map (\<lambda>(name, df). set_dataset df name) (loaded (gsea_csv fs) gsea_files)"
    using load_loop_ok [OF n2, of w1 "[]"] by (simp add: 2 l2)
  with c2 have e2: "loaded (gsea_csv fs) gsea_files \<noteq> []" by auto
  from n1 n2 e1 e2 show ?thesis by (intro conjI)
qed

lemma length_tagged: "length (tagged srcs) = sum_list (map (\<lambda>(name, df). length df) srcs)"
  by (induction srcs) (auto simp: tagged_def)

lemma fst_loaded: "fst ` set (loaded fs fl) \<subseteq> fst ` set fl"
proof (induction fl)
  case Nil
  show ?case by (simp add: loaded_Nil)
next
  case (Cons a fl)
  obtain name path where a: "a = (name, path)" by (cases a)
  from Cons show ?case
    unfolding a loaded_Cons by (auto split: option.splits sum.splits)
qed

lemma dataset_tagged: "r \<in> set (tagged srcs) \<Longrightarrow> dataset r \<in> fst ` set srcs"
  by (induction srcs) (auto simp: tagged_def)

lemma loaded_example_dge:
  "loaded (dge_csv example_files) dge_files =
     [(''cd45pos_jeff'', example_dge), (''cd45neg_rrg'', zero_dge)]"
  by (simp add: example_files_def dge_files_def loaded_Cons loaded_Nil)

lemma loaded_example_gsea:
  "loaded (gsea_csv example_files) gsea_files = [(''cd45neg_rrg'', example_gsea)]"
  by (simp add: example_files_def gsea_files_def loaded_Cons loaded_Nil)

lemma no_read_error_example:
  "no_read_error (dge_csv example_files) dge_files"
  "no_read_error (gsea_csv example_files) gsea_files"
  by (simp_all add: example_files_def dge_files_def gsea_files_def no_read_error_def)

lemma load_data_example:
  "snd (load_data example_files) =
     Inr (set_dataset example_dge ''cd45pos_jeff'' @ set_dataset zero_dge ''cd45neg_rrg'',
          set_dataset example_gsea ''cd45neg_rrg'')"
  using load_data_ok [of example_files]
  by (simp add: no_read_error_example loaded_example_dge loaded_example_gsea tagged_def
      set_dataset_def)

section \<open>One pass of the script\<close>

lemma script_stops_cell_type:
  assumes "selected_dataset u = Inr sd"
    and "cell_type_options lib (dge_subset_of all_dge sd) = Inl e"
  shows "script lib all_dge all_gsea u =
     stopped \<lparr>dge_objs = [all_dge, dge_subset_of all_dge sd], gsea_objs = [all_gsea]\<rparr> e"
  using assms by (simp add: script_def new_dge_def Let_def)

lemma script_stops_comp1:
  assumes "selected_dataset u = Inr sd"
    and "cell_type_options lib (dge_subset_of all_dge sd) = Inr o0"
    and "comp1_options lib (dge_cell_type_subset_of (dge_subset_of all_dge sd)
           (selectbox o0 (cell_type_idx u))) = Inl e"
  shows "script lib all_dge all_gsea u =
     stopped \<lparr>dge_objs = [all_dge, dge_subset_of all_dge sd,
                            dge_cell_type_subset_of (dge_subset_of all_dge sd)
                              (selectbox o0 (cell_type_idx u))],
              gsea_objs = [all_gsea]\<rparr> e"
  using assms by (simp add: script_def new_dge_def Let_def)

lemma script_stops_comp2:
  assumes "selected_dataset u = Inr sd"
    and "cell_type_options lib (dge_subset_of all_dge sd) = Inr o0"
    and "comp1_options lib (dge_cell_type_subset_of (dge_subset_of all_dge sd)
           (selectbox o0 (cell_type_idx u))) = Inr o1"
    and "comp2_options lib (dge_cell_type_subset_of (dge_subset_of all_dge sd)
           (selectbox o0 (cell_type_idx u))) (selectbox o1 (comp1_idx u)) = Inl e"
  shows "script lib all_dge all_gsea u =
     stopped \<lparr>dge_objs = [all_dge, dge_subset_of all_dge sd,
                            dge_cell_type_subset_of (dge_subset_of all_dge sd)
                              (selectbox o0 (cell_type_idx u))],
              gsea_objs = [all_gsea]\<rparr> e"
  using assms by (simp add: script_def new_dge_def Let_def)

lemma script_outcome:
  assumes sd: "selected_dataset u = Inr sd"
    and o0: "cell_type_options lib (dge_subset_of all_dge sd) = Inr o0"
    and o1: "comp1_options lib (dge_cell_type_subset_of (dge_subset_of all_dge sd)
           (selectbox o0 (cell_type_idx u))) = Inr o1"
    and o2: "comp2_options lib (dge_cell_type_subset_of (dge_subset_of all_dge sd)
           (selectbox o0 (cell_type_idx u))) (selectbox o1 (comp1_idx u)) = Inr o2"
  shows "script lib all_dge all_gsea u =
   (let sub = dge_subset_of all_dge sd;
        ct = selectbox o0 (cell_type_idx u);
        cts = dge_cell_type_subset_of sub ct;
        c1 = selectbox o1 (comp1_idx u);
        c2 = selectbox o2 (comp2_idx u);
        fd = filtered_dge_of cts c1 c2;
        fd' = assign_significant fd (pval_cutoff u) (logfc_cutoff u);
        fg = filtered_gsea_of lib all_gsea sd ct c1 c2 (gsea_pathway_count u);
        w2 = (if fg = [] then [''No GSEA data available for the current selection.''] else [])
    in if fd = [] then
         \<lparr>final = \<lparr>dge_objs = [all_dge, sub, cts, fd], gsea_objs = [all_gsea, fg]\<rparr>,
          shown = ''No data available for the current selection.'' # w2, raised = None,
          filtered_dge_ref = Some 3, filtered_gsea_ref = Some 1\<rparr>
       else case volcano_epsilon fd' of
         Inl e \<Rightarrow>
           \<lparr>final = \<lparr>dge_objs = [all_dge, sub, cts, fd'], gsea_objs = [all_gsea]\<rparr>,
            shown = [], raised = Some e,
            filtered_dge_ref = Some 3, filtered_gsea_ref = None\<rparr>
       | Inr eps \<Rightarrow>
           \<lparr>final = \<lparr>dge_objs = [all_dge, sub, cts, fd'], gsea_objs = [all_gsea, fg]\<rparr>,
            shown = w2, raised = None,
            filtered_dge_ref = Some 3, filtered_gsea_ref = Some 1\<rparr>)"
proof -
  define sub where "sub = dge_subset_of all_dge sd"
  define ct where "ct = selectbox o0 (cell_type_idx u)"
  define cts where "cts = dge_cell_type_subset_of sub ct"
  define c1 where "c1 = selectbox o1 (comp1_idx u)"
  define c2 where "c2 = selectbox o2 (comp2_idx u)"
  define fd where "fd = filtered_dge_of cts c1 c2"
  define fd' where "fd' = assign_significant fd (pval_cutoff u) (logfc_cutoff u)"
  define fg where "fg = filtered_gsea_of lib all_gsea sd ct c1 c2 (gsea_pathway_count u)"
  define s3 where "s3 = \<lparr>dge_objs = [all_dge, sub, cts, fd], gsea_objs = [all_gsea]\<rparr>"
  have pre: "script lib all_dge all_gsea u =
    (case tab1 s3 3 u of
       (s4, w1, Some e) \<Rightarrow>
         \<lparr>final = s4, shown = w1, raised = Some e,
          filtered_dge_ref = Some 3, filtered_gsea_ref = None\<rparr>
     | (s4, w1, None) \<Rightarrow>
         (case tab2 lib s4 0 sd ct c1 c2 u of (s5, filtered_gsea, w2) \<Rightarrow>
            \<lparr>final = s5, shown = w1 @ w2, raised = None,
             filtered_dge_ref = Some 3, filtered_gsea_ref = Some filtered_gsea\<rparr>))"
    using o0 o1 o2
    by (simp add: script_def sd new_dge_def Let_def s3_def sub_def ct_def cts_def c1_def c2_def
        fd_def numeral_3_eq_3)
  have t1: "tab1 s3 3 u =
     (if fd = [] then (s3, [''No data available for the current selection.''], None)
      else (s3\<lparr>dge_objs := [all_dge, sub, cts, fd']\<rparr>, [],
            case volcano_epsilon fd' of Inl e \<Rightarrow> Some e | Inr eps \<Rightarrow> None))"
    by (simp add: tab1_def s3_def setitem_significant_at_def Let_def fd'_def assign_significant_def
        numeral_3_eq_3 split: sum.split)
  have t2: "tab2 lib s 0 sd ct c1 c2 u =
     (s\<lparr>gsea_objs := [all_gsea, fg]\<rparr>, 1,
      if fg = [] then [''No GSEA data available for the current selection.''] else [])"
    if "gsea_objs s = [all_gsea]" for s
    by (simp add: tab2_def new_gsea_def that fg_def)
  show ?thesis
    unfolding Let_def sub_def [symmetric] ct_def [symmetric] cts_def [symmetric]
      c1_def [symmetric] c2_def [symmetric] fd_def [symmetric] fd'_def [symmetric]
      fg_def [symmetric] pre t1
    by (simp add: t2 s3_def split: sum.split)
qed

lemma script_store_shape:
  "\<exists>ds gs. final (script lib all_dge all_gsea u) =
     \<lparr>dge_objs = all_dge # ds, gsea_objs = all_gsea # gs\<rparr>"
proof -
  obtain sd where sd: "selected_dataset u = Inr sd"
    by (simp add: selected_dataset_eq)
  show ?thesis
  proof (cases "cell_type_options lib (dge_subset_of all_dge sd)")
    case (Inl e)
    show ?thesis
      unfolding script_stops_cell_type [OF sd Inl] by (simp add: stopped_def)
  next
    case o0: (Inr o0)
    show ?thesis
    proof (cases "comp1_options lib (dge_cell_type_subset_of (dge_subset_of all_dge sd)
           (selectbox o0 (cell_type_idx u)))")
      case (Inl e)
      show ?thesis
        unfolding script_stops_comp1 [OF sd o0 Inl] by (simp add: stopped_def)
    next
      case o1: (Inr o1)
      show ?thesis
      proof (cases "comp2_options lib (dge_cell_type_subset_of (dge_subset_of all_dge sd)
           (selectbox o0 (cell_type_idx u))) (selectbox o1 (comp1_idx u))")
        case (Inl e)
        show ?thesis
          unfolding script_stops_comp2 [OF sd o0 o1 Inl] by (simp add: stopped_def)
      next
        case o2: (Inr o2)
        show ?thesis
          unfolding script_outcome [OF sd o0 o1 o2] Let_def by (simp split: sum.split)
      qed
    qed
  qed
qed

lemma getitem_mask_none: "\<forall>b\<in>set msk. \<not> b \<Longrightarrow> getitem_mask xs msk = []"
  by (auto simp: getitem_mask_def filter_empty_conv dest: set_zip_rightD)

lemma volcano_epsilon_no_positive:
  assumes "\<forall>r\<in>set fd. \<not> flt_gt (p_val_adj r) (Fin 0)"
  shows "volcano_epsilon fd = Inl (ValueError ''min() arg is an empty sequence'')"
proof -
  have "getitem_mask (map p_val_adj fd) (col_gt (map p_val_adj fd) (Fin 0)) = []"
    using assms by (intro getitem_mask_none) (simp add: col_gt_def)
  then show ?thesis
    by (simp add: volcano_epsilon_def py_min_def)
qed

lemma p_val_adj_assign_significant:
  "map p_val_adj (assign_significant fd P L) = map p_val_adj fd"
  by (rule nth_equalityI) (simp_all add: length_assign_significant nth_assign_significant)

lemma volcano_epsilon_assign_significant:
  "volcano_epsilon (assign_significant fd P L) = volcano_epsilon fd"
  by (simp add: volcano_epsilon_def p_val_adj_assign_significant)

lemma selectbox_single: "selectbox [x] i = Some x"
  by (simp add: selectbox_def)

lemma script_zero_selection:
  "dge_subset_of zero_dge ''cd45neg_rrg'' = zero_dge"
  "cell_type_options lib zero_dge = Inr [Str ''T'']"
  "dge_cell_type_subset_of zero_dge (Some (Str ''T'')) = zero_dge"
  "comp1_options lib zero_dge = Inr [Str ''X'']"
  "comp2_options lib zero_dge (Some (Str ''X'')) = Inr [Str ''Y'']"
  "filtered_dge_of zero_dge (Some (Str ''X'')) (Some (Str ''Y'')) = zero_dge"
  by (simp_all add: dge_subset_of_filter cell_type_options_def dge_cell_type_subset_of_filter
      comp1_options_def comp2_options_filter filtered_dge_of_filter unique_def py_sorted_def
      sel_match_def zero_dge_def)

lemma script_example_selection:
  "dge_subset_of example_dge ''cd45pos_rrg'' = example_dge"
  "cell_type_options lib example_dge = Inr [Str ''T'']"
  "dge_cell_type_subset_of example_dge (Some (Str ''T'')) = example_dge"
  "comp1_options lib example_dge = Inr [Str ''X'']"
  "comp2_options lib example_dge (Some (Str ''X'')) = Inr [Str ''Y'']"
  "filtered_dge_of example_dge (Some (Str ''X'')) (Some (Str ''Y'')) = example_dge"
  by (simp_all add: dge_subset_of_filter cell_type_options_def dge_cell_type_subset_of_filter
      comp1_options_def comp2_options_filter filtered_dge_of_filter unique_def py_sorted_def
      sel_match_def example_dge_def)

lemma volcano_epsilon_example: "volcano_epsilon example_dge = Inr (Fin 0.001)"
  by (simp add: volcano_epsilon_def example_dge_def col_gt_def flt_gt_def getitem_mask_def
      py_min_def)

lemma script_example_labels:
  "map significant (dge_objs (final (script lib example_dge [] (ui0\<lparr>main_group_idx := 0, annotation_idx := 0\<rparr>))) ! 3)
     = [Some ''Significant'', Some ''Not Significant'']
   \<and> map significant (dge_objs (final (script lib example_dge [] (ui0\<lparr>main_group_idx := 0, annotation_idx := 0\<rparr>))) ! 0)
     = [None, None]"
proof -
  let ?u = "ui0\<lparr>main_group_idx := 0, annotation_idx := 0\<rparr>"
  have sd: "selected_dataset ?u = Inr ''cd45pos_rrg''"
    by (simp add: selected_dataset_eq ui0_def)
  have o0: "cell_type_options lib (dge_subset_of example_dge ''cd45pos_rrg'') = Inr [Str ''T'']"
    by (simp only: script_example_selection)
  have o1: "comp1_options lib (dge_cell_type_subset_of (dge_subset_of example_dge ''cd45pos_rrg'')
           (selectbox [Str ''T''] (cell_type_idx ?u))) = Inr [Str ''X'']"
    by (simp only: script_example_selection selectbox_single)
  have o2: "comp2_options lib (dge_cell_type_subset_of (dge_subset_of example_dge ''cd45pos_rrg'')
           (selectbox [Str ''T''] (cell_type_idx ?u))) (selectbox [Str ''X''] (comp1_idx ?u))
            = Inr [Str ''Y'']"
    by (simp only: script_example_selection selectbox_single)
  have ne: "example_dge \<noteq> []"
    by (simp add: example_dge_def)
  have cut: "pval_cutoff ?u = Fin 0.05" "logfc_cutoff ?u = Fin 0.5"
    by (simp_all add: ui0_def)
  have lab: "map significant (assign_significant example_dge (Fin 0.05) (Fin 0.5)) =
       [Some ''Significant'', Some ''Not Significant'']"
    by (simp add: example_dge_def assign_significant_def significant_labels_def
        setitem_significant_def map_label_def mask_and_def col_lt_def col_gt_def col_abs_def
        flt_gt_def)
  have non: "map significant example_dge = [None, None]"
    by (simp add: example_dge_def)
  have "dge_objs (final (script lib example_dge [] ?u)) =
     [example_dge, example_dge, example_dge, assign_significant example_dge (Fin 0.05) (Fin 0.5)]"
    unfolding script_outcome [OF sd o0 o1 o2] Let_def script_example_selection selectbox_single
      volcano_epsilon_assign_significant volcano_epsilon_example cut
    using ne by simp
  then show ?thesis
    using lab by (simp add: non numeral_3_eq_3)
qed

section \<open>Claims about the classifier\<close>

text \<open>
  C1. In every row of the filtered DGE table, for every pair of cutoffs, the label assigned
  is \<open>Significant\<close> exactly when the row's \<open>p_val_adj\<close> is strictly below \<open>pval_cutoff\<close> and
  the absolute value of its \<open>avg_log2FC\<close> is strictly above \<open>logfc_cutoff\<close>, and
  \<open>Not Significant\<close> otherwise; the assignment keeps the number of rows. For finite cells
  and cutoffs this is \<open>p < pval_cutoff\<close> and \<open>\<bar>x\<bar> > logfc_cutoff\<close> on the real numbers; an
  infinite fold change of either sign is above every finite cutoff; a missing cell makes the
  row \<open>Not Significant\<close>. In the two-row example with cutoffs 0.05 and 0.5, row A is
  labelled \<open>Significant\<close> and row B \<open>Not Significant\<close>; with the same cutoffs a fold change of
  -1.2 is \<open>Significant\<close>, a fold change of exactly 0.5 and an adjusted p-value of exactly 0.05
  are \<open>Not Significant\<close>.
\<close>

theorem significance_label_iff:
  "(\<forall>i<length df.
      significant (assign_significant df P L ! i) =
        Some (if flt_lt (p_val_adj (df ! i)) P \<and> flt_gt (flt_abs (avg_log2FC (df ! i))) L
              then ''Significant'' else ''Not Significant'')
      \<and> (significant (assign_significant df P L ! i) = Some ''Significant'' \<longleftrightarrow>
           flt_lt (p_val_adj (df ! i)) P \<and> flt_gt (flt_abs (avg_log2FC (df ! i))) L)
      \<and> (\<forall>p x pc lc. p_val_adj (df ! i) = Fin p \<and> avg_log2FC (df ! i) = Fin x \<longrightarrow>
           significant (assign_significant df (Fin pc) (Fin lc) ! i) =
             Some (if p < pc \<and> \<bar>x\<bar> > lc then ''Significant'' else ''Not Significant''))
      \<and> (\<forall>p pc lc. p_val_adj (df ! i) = Fin p
              \<and> (avg_log2FC (df ! i) = PInf \<or> avg_log2FC (df ! i) = NInf) \<longrightarrow>
           significant (assign_significant df (Fin pc) (Fin lc) ! i) =
             Some (if p < pc then ''Significant'' else ''Not Significant''))
      \<and> (p_val_adj (df ! i) = NaN \<or> avg_log2FC (df ! i) = NaN \<longrightarrow>
           significant (assign_significant df P L ! i) = Some ''Not Significant''))
   \<and> length (assign_significant df P L) = length df
   \<and> map significant (assign_significant example_dge (Fin 0.05) (Fin 0.5)) =
       [Some ''Significant'', Some ''Not Significant'']
   \<and> map significant (assign_significant edge_dge (Fin 0.05) (Fin 0.5)) =
       [Some ''Significant'', Some ''Not Significant'', Some ''Not Significant'',
        Some ''Not Significant'', Some ''Significant'']"
proof (intro conjI allI impI)
  fix i assume i: "i < length df"
  show "significant (assign_significant df P L ! i) =
        Some (if flt_lt (p_val_adj (df ! i)) P \<and> flt_gt (flt_abs (avg_log2FC (df ! i))) L
              then ''Significant'' else ''Not Significant'')"
    by (simp add: nth_assign_significant [OF i])
  show "significant (assign_significant df P L ! i) = Some ''Significant'' \<longleftrightarrow>
           flt_lt (p_val_adj (df ! i)) P \<and> flt_gt (flt_abs (avg_log2FC (df ! i))) L"
    by (simp add: nth_assign_significant [OF i])
  show "significant (assign_significant df (Fin pc) (Fin lc) ! i) =
             Some (if p < pc \<and> \<bar>x\<bar> > lc then ''Significant'' else ''Not Significant'')"
    if "p_val_adj (df ! i) = Fin p \<and> avg_log2FC (df ! i) = Fin x" for p x pc lc
    using that by (simp add: nth_assign_significant [OF i] flt_gt_def)
  show "significant (assign_significant df (Fin pc) (Fin lc) ! i) =
             Some (if p < pc then ''Significant'' else ''Not Significant'')"
    if "p_val_adj (df ! i) = Fin p
          \<and> (avg_log2FC (df ! i) = PInf \<or> avg_log2FC (df ! i) = NInf)" for p pc lc
    using that by (auto simp: nth_assign_significant [OF i] flt_gt_def)
  show "significant (assign_significant df P L ! i) = Some ''Not Significant''"
    if "p_val_adj (df ! i) = NaN \<or> avg_log2FC (df ! i) = NaN"
    using that by (auto simp: nth_assign_significant [OF i] flt_gt_def)
next
  show "length (assign_significant df P L) = length df"
    by (rule length_assign_significant)
next
  show "map significant (assign_significant example_dge (Fin 0.05) (Fin 0.5)) =
       [Some ''Significant'', Some ''Not Significant'']"
    by (simp add: example_dge_def assign_significant_def significant_labels_def
        setitem_significant_def map_label_def mask_and_def col_lt_def col_gt_def col_abs_def
        flt_gt_def)
next
  show "map significant (assign_significant edge_dge (Fin 0.05) (Fin 0.5)) =
       [Some ''Significant'', Some ''Not Significant'', Some ''Not Significant'',
        Some ''Not Significant'', Some ''Significant'']"
    by (rule significant_edge_dge)
qed

theorem significance_label_iff_witness:
  "(0::nat) < length edge_dge \<and> p_val_adj (edge_dge ! 0) = Fin 0.001
   \<and> avg_log2FC (edge_dge ! 0) = Fin (- 1.2)
   \<and> significant (assign_significant edge_dge (Fin 0.05) (Fin 0.5) ! 0) = Some ''Significant''
   \<and> (1::nat) < length edge_dge \<and> p_val_adj (edge_dge ! 1) = Fin 0.001
   \<and> avg_log2FC (edge_dge ! 1) = Fin 0.5
   \<and> significant (assign_significant edge_dge (Fin 0.05) (Fin 0.5) ! 1) = Some ''Not Significant''
   \<and> (3::nat) < length edge_dge \<and> p_val_adj (edge_dge ! 3) = NaN
   \<and> significant (assign_significant edge_dge (Fin 0.05) (Fin 0.5) ! 3) = Some ''Not Significant''"
proof -
  have len: "(0::nat) < length edge_dge" "(1::nat) < length edge_dge" "(3::nat) < length edge_dge"
    by (simp_all add: edge_dge_def)
  have c0: "p_val_adj (edge_dge ! 0) = Fin 0.001 \<and> avg_log2FC (edge_dge ! 0) = Fin (- 1.2)"
    by (simp add: edge_dge_def)
  have c1: "p_val_adj (edge_dge ! 1) = Fin 0.001 \<and> avg_log2FC (edge_dge ! 1) = Fin 0.5"
    by (simp add: edge_dge_def)
  have c3: "p_val_adj (edge_dge ! 3) = NaN"
    by (simp add: edge_dge_def)
  note t = significance_label_iff [of edge_dge "Fin 0.05" "Fin 0.5"]
  from t len(1) c0
  have r0: "significant (assign_significant edge_dge (Fin 0.05) (Fin 0.5) ! 0) =
      Some (if (0.001::real) < 0.05 \<and> \<bar>- 1.2::real\<bar> > 0.5 then ''Significant'' else ''Not Significant'')"
    by blast
  from t len(2) c1
  have r1: "significant (assign_significant edge_dge (Fin 0.05) (Fin 0.5) ! 1) =
      Some (if (0.001::real) < 0.05 \<and> \<bar>0.5::real\<bar> > 0.5 then ''Significant'' else ''Not Significant'')"
    by blast
  from t len(3) c3
  have r3: "significant (assign_significant edge_dge (Fin 0.05) (Fin 0.5) ! 3) = Some ''Not Significant''"
    by blast
  show ?thesis
    using len c0 c1 c3 r0 r1 r3 by simp
qed

text \<open>
  C3. The classification is monotone in the cutoffs: a row labelled \<open>Not Significant\<close>
  stays so when \<open>logfc_cutoff\<close> is raised with the same \<open>pval_cutoff\<close>, and when
  \<open>pval_cutoff\<close> is lowered with the same \<open>logfc_cutoff\<close>; equivalently, a row that is
  \<open>Significant\<close> under the tighter cutoff is \<open>Significant\<close> under the looser one.
\<close>

theorem significance_monotone:
  assumes "i < length df"
  shows "(flt_le L L' \<and> significant (assign_significant df P L ! i) = Some ''Not Significant''
            \<longrightarrow> significant (assign_significant df P L' ! i) = Some ''Not Significant'')
       \<and> (flt_le P' P \<and> significant (assign_significant df P L ! i) = Some ''Not Significant''
            \<longrightarrow> significant (assign_significant df P' L ! i) = Some ''Not Significant'')
       \<and> (flt_le L L' \<and> significant (assign_significant df P L' ! i) = Some ''Significant''
            \<longrightarrow> significant (assign_significant df P L ! i) = Some ''Significant'')
       \<and> (flt_le P' P \<and> significant (assign_significant df P' L ! i) = Some ''Significant''
            \<longrightarrow> significant (assign_significant df P L ! i) = Some ''Significant'')"
  using flt_le_lt_trans [of L L' "flt_abs (avg_log2FC (df ! i))"]
        flt_lt_le_trans [of "p_val_adj (df ! i)" P' P]
  by (auto simp: nth_assign_significant [OF assms] flt_gt_def split: if_splits)

theorem significance_monotone_witness:
  "(1::nat) < length example_dge \<and> flt_le (Fin 0.5) (Fin 1) \<and> flt_le (Fin 0.01) (Fin 0.05) \<and>
   significant (assign_significant example_dge (Fin 0.05) (Fin 0.5) ! 1) = Some ''Not Significant'' \<and>
   significant (assign_significant example_dge (Fin 0.05) (Fin 1) ! 1) = Some ''Not Significant'' \<and>
   significant (assign_significant example_dge (Fin 0.01) (Fin 0.5) ! 1) = Some ''Not Significant'' \<and>
   significant (assign_significant example_dge (Fin 0.05) (Fin 1) ! 0) = Some ''Significant'' \<and>
   significant (assign_significant example_dge (Fin 0.01) (Fin 0.5) ! 0) = Some ''Significant'' \<and>
   significant (assign_significant example_dge (Fin 0.05) (Fin 0.5) ! 0) = Some ''Significant''"
proof -
  have len: "(1::nat) < length example_dge" "(0::nat) < length example_dge"
    by (simp_all add: example_dge_def)
  have le: "flt_le (Fin 0.5) (Fin 1)" "flt_le (Fin 0.01) (Fin 0.05)"
    by simp_all
  have b: "significant (assign_significant example_dge (Fin 0.05) (Fin 0.5) ! 1) = Some ''Not Significant''"
    by (subst nth_assign_significant [OF len(1)]) (simp add: example_dge_def flt_gt_def)
  have a: "significant (assign_significant example_dge (Fin 0.05) (Fin 1) ! 0) = Some ''Significant''"
          "significant (assign_significant example_dge (Fin 0.01) (Fin 0.5) ! 0) = Some ''Significant''"
    by (subst nth_assign_significant [OF len(2)], simp add: example_dge_def flt_gt_def)+
  show ?thesis
    using significance_monotone [OF len(1), where L = "Fin 0.5" and L' = "Fin 1"
                                   and P = "Fin 0.05" and P' = "Fin 0.01"]
          significance_monotone [OF len(2), where L = "Fin 0.5" and L' = "Fin 1"
                                   and P = "Fin 0.05" and P' = "Fin 0.01"]
          len le a b
    by blast
qed

text \<open>
  C10. The label of a row depends only on that row's \<open>p_val_adj\<close> and \<open>avg_log2FC\<close> and on
  the two cutoffs: two rows with equal values of both columns, at any positions of any two
  tables, get the same label under the same cutoffs, whatever the other rows are.
\<close>

theorem significance_row_local:
  assumes "i < length df1" and "j < length df2"
    and "p_val_adj (df1 ! i) = p_val_adj (df2 ! j)"
    and "avg_log2FC (df1 ! i) = avg_log2FC (df2 ! j)"
  shows "significant (assign_significant df1 P L ! i) = significant (assign_significant df2 P L ! j)"
  using assms by (simp add: nth_assign_significant)

theorem significance_row_local_witness:
  "(1::nat) < length example_dge \<and> (0::nat) < length (tl example_dge) \<and>
   p_val_adj (example_dge ! 1) = p_val_adj (tl example_dge ! 0) \<and>
   avg_log2FC (example_dge ! 1) = avg_log2FC (tl example_dge ! 0) \<and>
   significant (assign_significant example_dge (Fin 0.05) (Fin 0.5) ! 1) =
     significant (assign_significant (tl example_dge) (Fin 0.05) (Fin 0.5) ! 0)"
  using significance_row_local [of 1 example_dge 0 "tl example_dge" "Fin 0.05" "Fin 0.5"]
  by (simp add: example_dge_def)

section \<open>Claims about the filter engine\<close>

text \<open>
  C2. For every selection and every pathway count, the filtered GSEA frame is the list of
  GSEA rows matching all four selection fields, sorted ascending by \<open>padj\<close> (rows without
  a \<open>padj\<close> last), cut to its first \<open>gsea_pathway_count\<close> rows: the sorted list is a
  permutation of the matching rows, it is ascending, the result is its prefix of length
  \<open>min gsea_pathway_count (number of matching rows)\<close>, and every row kept matches. This
  holds for every order that \<open>argsort\<close> gives the keys, as long as it lists each position
  once with ascending keys; which of several rows with equal \<open>padj\<close> comes first, and so
  which of them is kept at the cut, is not determined.
\<close>

theorem filtered_gsea_sorted_top:
  assumes "argsort_ok
      (argsort lib [k \<leftarrow> map padj (filter (matches sd ct c1 c2) all_gsea). k \<noteq> NaN])
      [k \<leftarrow> map padj (filter (matches sd ct c1 c2) all_gsea). k \<noteq> NaN]"
  shows "filtered_gsea_of lib all_gsea sd ct c1 c2 n =
     take n (sort_values_padj lib (filter (matches sd ct c1 c2) all_gsea))
   \<and> mset (sort_values_padj lib (filter (matches sd ct c1 c2) all_gsea)) =
       mset (filter (matches sd ct c1 c2) all_gsea)
   \<and> sorted_wrt (\<lambda>a b. key_ascending (padj a) (padj b))
       (sort_values_padj lib (filter (matches sd ct c1 c2) all_gsea))
   \<and> sorted_wrt (\<lambda>a b. key_ascending (padj a) (padj b))
       (filtered_gsea_of lib all_gsea sd ct c1 c2 n)
   \<and> length (filtered_gsea_of lib all_gsea sd ct c1 c2 n) =
       min n (length (filter (matches sd ct c1 c2) all_gsea))
   \<and> set (filtered_gsea_of lib all_gsea sd ct c1 c2 n)
       \<subseteq> {r \<in> set all_gsea. matches sd ct c1 c2 r}"
proof -
  let ?M = "filter (matches sd ct c1 c2) all_gsea"
  let ?R = "\<lambda>a b. key_ascending (padj a) (padj b)"
  have eq: "filtered_gsea_of lib all_gsea sd ct c1 c2 n = take n (sort_values_padj lib ?M)"
    by (rule filtered_gsea_of_filter)
  have ms: "mset (sort_values_padj lib ?M) = mset ?M"
    using assms by (rule mset_sort_values_padj)
  have so: "sorted_wrt ?R (sort_values_padj lib ?M)"
    using assms by (rule sorted_sort_values_padj)
  have so': "sorted_wrt ?R (take n (sort_values_padj lib ?M))"
    using so by (rule sorted_wrt_take)
  have len: "length (sort_values_padj lib ?M) = length ?M"
    using ms by (rule mset_eq_length)
  have "set (sort_values_padj lib ?M) = set ?M"
    using ms by (rule mset_eq_setD)
  then have sub: "set (take n (sort_values_padj lib ?M)) \<subseteq> {r \<in> set all_gsea. matches sd ct c1 c2 r}"
    using set_take_subset [of n "sort_values_padj lib ?M"] by auto
  have ln: "length (take n (sort_values_padj lib ?M)) = min n (length ?M)"
    by (simp add: len min.commute)
  show ?thesis
    unfolding eq by (intro conjI refl ms so so' ln sub)
qed

theorem filtered_gsea_sorted_top_witness:
  "argsort_ok
     (argsort lib_rev [k \<leftarrow> map padj (filter (matches ''cd45neg_rrg'' (Some (Str ''T''))
         (Some (Str ''X'')) (Some (Str ''Y''))) tied_gsea). k \<noteq> NaN])
     [k \<leftarrow> map padj (filter (matches ''cd45neg_rrg'' (Some (Str ''T''))
         (Some (Str ''X'')) (Some (Str ''Y''))) tied_gsea). k \<noteq> NaN]
   \<and> map pathway (filtered_gsea_of lib_rev tied_gsea ''cd45neg_rrg'' (Some (Str ''T''))
        (Some (Str ''X'')) (Some (Str ''Y'')) 3) = [''P3'', ''P1'', ''P4'']
   \<and> sorted_wrt (\<lambda>a b. key_ascending (padj a) (padj b))
        (filtered_gsea_of lib_rev tied_gsea ''cd45neg_rrg'' (Some (Str ''T''))
           (Some (Str ''X'')) (Some (Str ''Y'')) 3)
   \<and> length (filtered_gsea_of lib_rev tied_gsea ''cd45neg_rrg'' (Some (Str ''T''))
        (Some (Str ''X'')) (Some (Str ''Y'')) 3) = 3
   \<and> argsort_ok
     (argsort lib_stable [k \<leftarrow> map padj (filter (matches ''cd45neg_rrg'' (Some (Str ''T''))
         (Some (Str ''X'')) (Some (Str ''Y''))) tied_gsea). k \<noteq> NaN])
     [k \<leftarrow> map padj (filter (matches ''cd45neg_rrg'' (Some (Str ''T''))
         (Some (Str ''X'')) (Some (Str ''Y''))) tied_gsea). k \<noteq> NaN]
   \<and> map pathway (filtered_gsea_of lib_stable tied_gsea ''cd45neg_rrg'' (Some (Str ''T''))
        (Some (Str ''X'')) (Some (Str ''Y'')) 3) = [''P1'', ''P3'', ''P0'']
   \<and> sorted_wrt (\<lambda>a b. key_ascending (padj a) (padj b))
        (filtered_gsea_of lib_stable tied_gsea ''cd45neg_rrg'' (Some (Str ''T''))
           (Some (Str ''X'')) (Some (Str ''Y'')) 3)"
proof -
  let ?K = "[k \<leftarrow> map padj (filter (matches ''cd45neg_rrg'' (Some (Str ''T''))
         (Some (Str ''X'')) (Some (Str ''Y''))) tied_gsea). k \<noteq> NaN]"
  have r: "argsort_ok (argsort lib_rev ?K) ?K"
    unfolding tied_keys using argsort_rev_tied argsort_ok_tied(1) by (simp add: lib_rev_def)
  have s: "argsort_ok (argsort lib_stable ?K) ?K"
    unfolding tied_keys using argsort_stable_tied argsort_ok_tied(2) by (simp add: lib_stable_def)
  have len: "length (filter (matches ''cd45neg_rrg'' (Some (Str ''T''))
         (Some (Str ''X'')) (Some (Str ''Y''))) tied_gsea) = 5"
    unfolding tied_matching by simp
  note tr = filtered_gsea_sorted_top [OF r, of 3]
  note ts = filtered_gsea_sorted_top [OF s, of 3]
  have lr: "length (filtered_gsea_of lib_rev tied_gsea ''cd45neg_rrg'' (Some (Str ''T''))
        (Some (Str ''X'')) (Some (Str ''Y'')) 3) = 3"
  proof -
    from tr have "length (filtered_gsea_of lib_rev tied_gsea ''cd45neg_rrg'' (Some (Str ''T''))
        (Some (Str ''X'')) (Some (Str ''Y'')) 3) = min 3 (length (filter (matches ''cd45neg_rrg''
        (Some (Str ''T'')) (Some (Str ''X'')) (Some (Str ''Y''))) tied_gsea))"
      by blast
    then show ?thesis
      unfolding len by simp
  qed
  show ?thesis
    using r s tr ts lr tied_top_rev tied_top_stable by (intro conjI) blast+
qed

section \<open>Claims about the selection\<close>

text \<open>
  C7. When the main group chosen is \<open>cd45neg\<close>, the selected dataset is \<open>cd45neg_rrg\<close>
  whatever annotation the widget state holds; when it is \<open>cd45pos\<close>, the selected dataset
  is \<open>cd45pos_\<close> followed by the chosen annotation type, which is \<open>rrg\<close> or \<open>jeff\<close>. The
  main group is always one of the two.
\<close>

theorem selected_dataset_cases:
  "(main_group u = Inr ''cd45neg'' \<longrightarrow>
      (\<forall>k. selected_dataset (u\<lparr>annotation_idx := k\<rparr>) = Inr ''cd45neg_rrg''))
   \<and> (main_group u = Inr ''cd45pos'' \<longrightarrow>
      (\<exists>a. (a = ''rrg'' \<or> a = ''jeff'') \<and> annotation_type u = Inr a
           \<and> selected_dataset u = Inr (''cd45pos_'' @ a)))
   \<and> (main_group u = Inr ''cd45pos'' \<or> main_group u = Inr ''cd45neg'')"
proof (cases "main_group_idx u = 1")
  case True
  then have "main_group u = Inr ''cd45neg''"
    by (simp add: main_group_eq)
  moreover have "selected_dataset (u\<lparr>annotation_idx := k\<rparr>) = Inr ''cd45neg_rrg''" for k
    using True by (simp add: selected_dataset_eq)
  ultimately show ?thesis by simp
next
  case False
  then have mg: "main_group u = Inr ''cd45pos''"
    by (simp add: main_group_eq)
  have "\<exists>a. (a = ''rrg'' \<or> a = ''jeff'') \<and> annotation_type u = Inr a
           \<and> selected_dataset u = Inr (''cd45pos_'' @ a)"
  proof (cases "annotation_idx u = 1")
    case True
    with False have "annotation_type u = Inr ''jeff'' \<and> selected_dataset u = Inr (''cd45pos_'' @ ''jeff'')"
      by (simp add: annotation_type_eq selected_dataset_eq)
    then show ?thesis by blast
  next
    case a: False
    with False have "annotation_type u = Inr ''rrg'' \<and> selected_dataset u = Inr (''cd45pos_'' @ ''rrg'')"
      by (simp add: annotation_type_eq selected_dataset_eq)
    then show ?thesis by blast
  qed
  with mg show ?thesis by simp
qed

theorem selected_dataset_cases_witness:
  "main_group ui0 = Inr ''cd45neg'' \<and> selected_dataset ui0 = Inr ''cd45neg_rrg''
   \<and> selected_dataset (ui0\<lparr>annotation_idx := 0\<rparr>) = Inr ''cd45neg_rrg''
   \<and> main_group (ui0\<lparr>main_group_idx := 0\<rparr>) = Inr ''cd45pos''
   \<and> selected_dataset (ui0\<lparr>main_group_idx := 0\<rparr>) = Inr ''cd45pos_jeff''"
proof -
  have neg: "main_group ui0 = Inr ''cd45neg''"
    by (simp add: main_group_eq ui0_def)
  have pos: "main_group (ui0\<lparr>main_group_idx := 0\<rparr>) = Inr ''cd45pos''"
    by (simp add: main_group_eq ui0_def)
  have ann: "annotation_type (ui0\<lparr>main_group_idx := 0\<rparr>) = Inr ''jeff''"
    by (simp add: annotation_type_eq ui0_def)
  have u: "ui0\<lparr>annotation_idx := 1\<rparr> = ui0"
    by (simp add: ui0_def)
  from selected_dataset_cases [of ui0] neg
  have n: "\<forall>k. selected_dataset (ui0\<lparr>annotation_idx := k\<rparr>) = Inr ''cd45neg_rrg''"
    by blast
  from selected_dataset_cases [of "ui0\<lparr>main_group_idx := 0\<rparr>"] pos ann
  have p: "selected_dataset (ui0\<lparr>main_group_idx := 0\<rparr>) = Inr ''cd45pos_jeff''"
    by auto
  from n [rule_format, of 1] n [rule_format, of 0] u p neg pos show ?thesis
    by simp
qed




section \<open>Claims about the data loader\<close>

text \<open>
  C6, under the conditions it needs. When every configured file is either absent or read without an
  exception, and at least one DGE source and one GSEA source load, the loader returns the
  two unified tables. Whenever it returns them, each is the concatenation, in configured
  order, of the frames of the sources that loaded, every row unchanged but for its
  \<open>dataset\<close> field, which is the source key of its file: no row is dropped, merged or
  reordered, the row count is the sum of the sources' row counts, and every \<open>dataset\<close>
  value is a configured key.
\<close>

theorem load_data_concat:
  "(no_read_error (dge_csv fs) dge_files \<and> no_read_error (gsea_csv fs) gsea_files
      \<and> loaded (dge_csv fs) dge_files \<noteq> [] \<and> loaded (gsea_csv fs) gsea_files \<noteq> [] \<longrightarrow>
      snd (load_data fs) =
        Inr (concat (map (\<lambda>(name, df). map (\<lambda>r. r\<lparr>dataset := name\<rparr>) df)
                         (loaded (dge_csv fs) dge_files)),
             concat (map (\<lambda>(name, df). map (\<lambda>r. r\<lparr>dataset := name\<rparr>) df)
                         (loaded (gsea_csv fs) gsea_files))))
   \<and> (\<forall>all_dge all_gsea. snd (load_data fs) = Inr (all_dge, all_gsea) \<longrightarrow>
        all_dge = concat (map (\<lambda>(name, df). map (\<lambda>r. r\<lparr>dataset := name\<rparr>) df)
                            (loaded (dge_csv fs) dge_files))
      \<and> all_gsea = concat (map (\<lambda>(name, df). map (\<lambda>r. r\<lparr>dataset := name\<rparr>) df)
                            (loaded (gsea_csv fs) gsea_files))
      \<and> length all_dge = sum_list (map (\<lambda>(name, df). length df) (loaded (dge_csv fs) dge_files))
      \<and> length all_gsea = sum_list (map (\<lambda>(name, df). length df) (loaded (gsea_csv fs) gsea_files))
      \<and> dataset ` set all_dge \<subseteq> fst ` set dge_files
      \<and> dataset ` set all_gsea \<subseteq> fst ` set gsea_files)"
proof (intro conjI allI impI)
  assume "no_read_error (dge_csv fs) dge_files \<and> no_read_error (gsea_csv fs) gsea_files
      \<and> loaded (dge_csv fs) dge_files \<noteq> [] \<and> loaded (gsea_csv fs) gsea_files \<noteq> []"
  then have "snd (load_data fs) =
     Inr (tagged (loaded (dge_csv fs) dge_files), tagged (loaded (gsea_csv fs) gsea_files))"
    by (intro load_data_ok) blast+
  then show "snd (load_data fs) =
        Inr (concat (map (\<lambda>(name, df). map (\<lambda>r. r\<lparr>dataset := name\<rparr>) df)
                         (loaded (dge_csv fs) dge_files)),
             concat (map (\<lambda>(name, df). map (\<lambda>r. r\<lparr>dataset := name\<rparr>) df)
                         (loaded (gsea_csv fs) gsea_files)))"
    unfolding tagged_def .
next
  fix all_dge all_gsea
  assume r: "snd (load_data fs) = Inr (all_dge, all_gsea)"
  note c = load_data_returns [OF r]
  from c have "snd (load_data fs) =
     Inr (tagged (loaded (dge_csv fs) dge_files), tagged (loaded (gsea_csv fs) gsea_files))"
    by (intro load_data_ok) blast+
  with r have d: "all_dge = tagged (loaded (dge_csv fs) dge_files)"
    and g: "all_gsea = tagged (loaded (gsea_csv fs) gsea_files)"
    by simp_all
  show "all_dge = concat (map (\<lambda>(name, df). map (\<lambda>r. r\<lparr>dataset := name\<rparr>) df)
                            (loaded (dge_csv fs) dge_files))"
    using d unfolding tagged_def .
  show "all_gsea = concat (map (\<lambda>(name, df). map (\<lambda>r. r\<lparr>dataset := name\<rparr>) df)
                            (loaded (gsea_csv fs) gsea_files))"
    using g unfolding tagged_def .
  show "length all_dge = sum_list (map (\<lambda>(name, df). length df) (loaded (dge_csv fs) dge_files))"
    unfolding d by (rule length_tagged)
  show "length all_gsea = sum_list (map (\<lambda>(name, df). length df) (loaded (gsea_csv fs) gsea_files))"
    unfolding g by (rule length_tagged)
  show "dataset ` set all_dge \<subseteq> fst ` set dge_files"
    unfolding d using dataset_tagged fst_loaded by fast
  show "dataset ` set all_gsea \<subseteq> fst ` set gsea_files"
    unfolding g using dataset_tagged fst_loaded by fast
qed

theorem load_data_concat_witness:
  "no_read_error (dge_csv example_files) dge_files
   \<and> no_read_error (gsea_csv example_files) gsea_files
   \<and> loaded (dge_csv example_files) dge_files \<noteq> []
   \<and> loaded (gsea_csv example_files) gsea_files \<noteq> []
   \<and> snd (load_data example_files) =
       Inr (set_dataset example_dge ''cd45pos_jeff'' @ set_dataset zero_dge ''cd45neg_rrg'',
            set_dataset example_gsea ''cd45neg_rrg'')
   \<and> length (set_dataset example_dge ''cd45pos_jeff'' @ set_dataset zero_dge ''cd45neg_rrg'') =
       length example_dge + length zero_dge
   \<and> dataset ` set (set_dataset example_dge ''cd45pos_jeff'' @ set_dataset zero_dge ''cd45neg_rrg'')
       \<subseteq> fst ` set dge_files"
proof -
  have h: "loaded (dge_csv example_files) dge_files \<noteq> []"
          "loaded (gsea_csv example_files) gsea_files \<noteq> []"
    by (simp_all add: loaded_example_dge loaded_example_gsea)
  note r = load_data_example
  from load_data_concat [of example_files] r
  have "length (set_dataset example_dge ''cd45pos_jeff'' @ set_dataset zero_dge ''cd45neg_rrg'') =
          sum_list (map (\<lambda>(name, df). length df) (loaded (dge_csv example_files) dge_files))"
    and "dataset ` set (set_dataset example_dge ''cd45pos_jeff'' @ set_dataset zero_dge ''cd45neg_rrg'')
          \<subseteq> fst ` set dge_files"
    by blast+
  then show ?thesis
    using h r no_read_error_example by (simp add: loaded_example_dge)
qed

text \<open>
  C6 as stated fails for a subset of sources that load while another configured file
  exists and cannot be read: only \<open>FileNotFoundError\<close> is caught, so with two DGE sources
  and one GSEA source loading and the third DGE file empty, \<open>load_data\<close> raises and
  produces no table.
\<close>

theorem load_data_unreadable_counterexample:
  "loaded (dge_csv unreadable_files) dge_files =
     [(''cd45pos_jeff'', example_dge), (''cd45neg_rrg'', zero_dge)]
   \<and> loaded (gsea_csv unreadable_files) gsea_files = [(''cd45neg_rrg'', example_gsea)]
   \<and> load_data unreadable_files = ([], Inl (ReadError ''EmptyDataError''))"
  by (simp add: unreadable_files_def dge_files_def gsea_files_def loaded_Cons loaded_Nil
      load_data_def read_data_def)

text \<open>
  C5. With every configured file absent the loader is claimed to return empty tables. It
  does not: after the three warnings for the DGE files, \<open>pd.concat\<close> of the empty list
  raises \<open>ValueError\<close>.
\<close>

theorem load_data_no_files_raises:
  "load_data no_files =
     ([''File not found: data/cd45pos_rrgcell_degs_wilcoxon.csv'',
       ''File not found: data/cd45pos_jeffcell_degs_wilcoxon.csv'',
       ''File not found: data/cd45neg_rrgcell_degs_wilcoxon.csv''],
      Inl (ValueError ''No objects to concatenate''))"
  by (simp add: load_data_def no_files_def dge_files_def read_data_def pd_concat_def)

section \<open>Claims about the script\<close>

text \<open>
  C4. A non-empty filtered DGE set without a strictly positive \<open>p_val_adj\<close> is claimed not
  to crash the volcano plot, the epsilon falling back to a positive constant. The code has no
  such fallback: on the one-row set whose adjusted p-value is zero the selection of the
  positive values is empty, \<open>min\<close> raises \<open>ValueError\<close>, the pass ends in tab 1 with that
  exception and the GSEA tab is never reached.
\<close>

theorem volcano_all_zero_raises:
  "zero_dge \<noteq> []
   \<and> list_all (\<lambda>r. \<not> flt_gt (p_val_adj r) (Fin 0)) zero_dge
   \<and> volcano_epsilon zero_dge = Inl (ValueError ''min() arg is an empty sequence'')
   \<and> raised (script lib zero_dge example_gsea ui0) =
       Some (ValueError ''min() arg is an empty sequence'')
   \<and> filtered_gsea_ref (script lib zero_dge example_gsea ui0) = None"
proof -
  have z: "zero_dge \<noteq> []" "list_all (\<lambda>r. \<not> flt_gt (p_val_adj r) (Fin 0)) zero_dge"
    by (simp_all add: zero_dge_def flt_gt_def)
  then have e: "volcano_epsilon zero_dge = Inl (ValueError ''min() arg is an empty sequence'')"
    by (intro volcano_epsilon_no_positive) (simp add: list_all_iff)
  have sd: "selected_dataset ui0 = Inr ''cd45neg_rrg''"
    by (simp add: selected_dataset_eq ui0_def)
  have o0: "cell_type_options lib (dge_subset_of zero_dge ''cd45neg_rrg'') = Inr [Str ''T'']"
    by (simp only: script_zero_selection)
  have o1: "comp1_options lib (dge_cell_type_subset_of (dge_subset_of zero_dge ''cd45neg_rrg'')
           (selectbox [Str ''T''] (cell_type_idx ui0))) = Inr [Str ''X'']"
    by (simp only: script_zero_selection selectbox_single)
  have o2: "comp2_options lib (dge_cell_type_subset_of (dge_subset_of zero_dge ''cd45neg_rrg'')
           (selectbox [Str ''T''] (cell_type_idx ui0))) (selectbox [Str ''X''] (comp1_idx ui0))
            = Inr [Str ''Y'']"
    by (simp only: script_zero_selection selectbox_single)
  have "script lib zero_dge example_gsea ui0 =
     \<lparr>final = \<lparr>dge_objs = [zero_dge, zero_dge, zero_dge,
                            assign_significant zero_dge (pval_cutoff ui0) (logfc_cutoff ui0)],
               gsea_objs = [example_gsea]\<rparr>,
      shown = [], raised = Some (ValueError ''min() arg is an empty sequence''),
      filtered_dge_ref = Some 3, filtered_gsea_ref = None\<rparr>"
    unfolding script_outcome [OF sd o0 o1 o2] Let_def script_zero_selection selectbox_single
      volcano_epsilon_assign_significant e
    using z(1) by simp
  then show ?thesis
    using z e by simp
qed

text \<open>
  C9. Nothing after loading changes the source tables: after a pass of the script, for
  every pair of loaded tables and every state of the widgets (also when the pass ends with
  an exception), the objects that \<open>all_dge\<close> and \<open>all_gsea\<close> refer to are the loaded tables,
  every row and column as loaded. The column \<open>significant\<close> is assigned in place, to the
  frame \<open>filtered_dge\<close>, which is another object.
\<close>

theorem script_keeps_sources:
  "dge_objs (final (script lib all_dge all_gsea u)) ! 0 = all_dge
   \<and> gsea_objs (final (script lib all_dge all_gsea u)) ! 0 = all_gsea"
proof -
  obtain ds gs where "final (script lib all_dge all_gsea u) =
     \<lparr>dge_objs = all_dge # ds, gsea_objs = all_gsea # gs\<rparr>"
    using script_store_shape by blast
  then show ?thesis by simp
qed

end
